theory Spec2Isabelle
  imports Main
begin

section \<open>Enumerations and errors\<close>

text \<open>
  Modelled from the spec: tickets/enums.py is not among the sources. The spec gives the
  ticket status as open, in_progress, closed, the ticket type as worker or another
  variant, the priority as low, medium, high, and team and project roles as admin or
  member. The source itself names \<open>TicketStatus.open\<close>, \<open>TicketStatus.in_progress\<close>,
  \<open>TicketType.worker\<close>, \<open>ProjectRole.admin\<close>, \<open>ProjectRole.member\<close>,
  \<open>WorkerRole.worker\<close>, \<open>TeamRole.admin\<close> and \<open>TeamRole.member\<close>.
\<close>

datatype TicketStatus = Status_open | Status_in_progress | Status_closed

datatype TicketType = TicketType_worker | TicketType_other

datatype TicketPriority = Priority_low | Priority_medium | Priority_high

datatype TeamRole = TeamRole_admin | TeamRole_member

text \<open>
  The role column of a project membership is compared with members of two enumerations
  (\<open>ProjectRole.admin\<close>, \<open>ProjectRole.member\<close>, \<open>WorkerRole.worker\<close>), so the model
  gives it all three values.
\<close>

datatype ProjectUserRole = ProjectRole_admin | ProjectRole_member | WorkerRole_worker

text \<open>\<open>status.value\<close> and \<open>status.name\<close> of the enumeration, as strings.\<close>

fun TicketStatus_value :: "TicketStatus \<Rightarrow> string" where
  "TicketStatus_value Status_open = ''open''"
| "TicketStatus_value Status_in_progress = ''in_progress''"
| "TicketStatus_value Status_closed = ''closed''"

fun TicketStatus_name :: "TicketStatus \<Rightarrow> string" where
  "TicketStatus_name Status_open = ''open''"
| "TicketStatus_name Status_in_progress = ''in_progress''"
| "TicketStatus_name Status_closed = ''closed''"

text \<open>
  \<open>HTTPException(404, ...)\<close>, \<open>HTTPException(403, ...)\<close> and \<open>HTTPException(400, ...)\<close>
  are \<open>NotFound\<close>, \<open>Forbidden\<close> and \<open>BadRequest\<close> (the detail text is dropped).
  \<open>RequestValidationError\<close> is the answer 422 of the framework to a path parameter
  outside the bounds that the route declares. The other three are Python exceptions that
  the code does not catch: an attribute read on \<open>None\<close>, a missing dictionary key, and
  a failed \<open>TicketOut.model_validate\<close>.
\<close>

datatype error =
    NotFound | Forbidden | BadRequest
  | RequestValidationError
  | AttributeError | KeyError | ValidationError

type_synonym datetime = int

section \<open>Entities and the store\<close>

text \<open>
  Modelled from the spec: tickets/models.py is not among the sources. The rows carry the
  columns that the source reads and writes; a column the source leaves to its default
  gets the default of the spec (a new ticket is open, unconfirmed, without feedback and
  without a closing time; its priority defaults to medium).
\<close>

record User =
  User_id :: int
  User_name :: string
  User_is_available :: bool

record Team =
  Team_id :: int
  Team_name :: string

record Project =
  Project_id :: int
  Project_worker_team_id :: "int option"

record UserTeam =
  UserTeam_user_id :: int
  UserTeam_team_id :: int
  UserTeam_role :: TeamRole
  UserTeam_joined_at :: datetime

record ProjectUser =
  ProjectUser_user_id :: int
  ProjectUser_project_id :: int
  ProjectUser_role :: ProjectUserRole

record Ticket =
  Ticket_id :: int
  Ticket_title :: string
  Ticket_description :: string
  Ticket_type :: TicketType
  Ticket_priority :: TicketPriority
  Ticket_status :: TicketStatus
  Ticket_created_by :: int
  Ticket_assigned_to :: "int option"
  Ticket_worker_team_id :: "int option"
  Ticket_team_id :: int
  Ticket_project_id :: int
  Ticket_feedback :: "string option"
  Ticket_confirmed :: bool
  Ticket_created_at :: datetime
  Ticket_updated_at :: "datetime option"
  Ticket_closed_at :: "datetime option"

text \<open>
  The session: one list of rows per table, in the order in which the engine returns
  them (\<open>.first()\<close> takes the head of the filtered list).
\<close>

record db =
  users :: "User list"
  teams :: "Team list"
  projects :: "Project list"
  user_teams :: "UserTeam list"
  project_users :: "ProjectUser list"
  tickets :: "Ticket list"

section \<open>Schemas (tickets/schemas/ticket.py)\<close>

record TicketCreate =
  TicketCreate_title :: string
  TicketCreate_description :: string
  TicketCreate_type :: TicketType
  TicketCreate_team_id :: "int option"
  TicketCreate_project_id :: "int option"
  TicketCreate_assigned_to_name :: "string option"
  TicketCreate_assigned_to :: "int option"
  TicketCreate_worker_team_id :: "int option"
  TicketCreate_priority :: "TicketPriority option"

record TicketStatusUpdate =
  TicketStatusUpdate_status :: TicketStatus

record TicketFeedbackUpdate =
  TicketFeedbackUpdate_feedback :: "string option"
  TicketFeedbackUpdate_confirmed :: bool

record TicketAssigneeUpdate =
  TicketAssigneeUpdate_assigned_to :: int

text \<open>A brief is the identifier and the display name of a user or of a team.\<close>

record Brief =
  Brief_id :: int
  Brief_name :: string

record TicketOut =
  TicketOut_title :: string
  TicketOut_description :: string
  TicketOut_id :: int
  TicketOut_type :: TicketType
  TicketOut_status :: TicketStatus
  TicketOut_creator :: Brief
  TicketOut_worker_team :: "Brief option"
  TicketOut_assignee :: "Brief option"
  TicketOut_created_at :: datetime
  TicketOut_priority :: TicketPriority
  TicketOut_confirmed :: bool
  TicketOut_feedback :: "string option"

section \<open>Queries\<close>

text \<open>\<open>db.query(models.Ticket).filter_by(id=ticket_id, project_id=project_id).first()\<close>\<close>

definition query_ticket :: "db \<Rightarrow> int \<Rightarrow> int \<Rightarrow> Ticket option" where
  "query_ticket d ticket_id project_id =
     find (\<lambda>t. Ticket_id t = ticket_id \<and> Ticket_project_id t = project_id) (tickets d)"

text \<open>\<open>db.get(models.User, user_id)\<close>, \<open>db.get(models.Team, team_id)\<close>,
  \<open>db.get(models.Project, project_id)\<close>\<close>

definition get_User :: "db \<Rightarrow> int \<Rightarrow> User option" where
  "get_User d user_id = find (\<lambda>u. User_id u = user_id) (users d)"

definition get_Team :: "db \<Rightarrow> int \<Rightarrow> Team option" where
  "get_Team d team_id = find (\<lambda>t. Team_id t = team_id) (teams d)"

definition get_Project :: "db \<Rightarrow> int \<Rightarrow> Project option" where
  "get_Project d project_id = find (\<lambda>p. Project_id p = project_id) (projects d)"

text \<open>The relationships \<open>user.teams\<close>, \<open>user.user_teams\<close> and \<open>user.project_users\<close>.\<close>

definition User_teams :: "db \<Rightarrow> int \<Rightarrow> Team list" where
  "User_teams d user_id =
     [t. ut \<leftarrow> user_teams d, UserTeam_user_id ut = user_id,
         t \<leftarrow> teams d, Team_id t = UserTeam_team_id ut]"

definition User_user_teams :: "db \<Rightarrow> int \<Rightarrow> UserTeam list" where
  "User_user_teams d user_id = filter (\<lambda>ut. UserTeam_user_id ut = user_id) (user_teams d)"

definition User_project_users :: "db \<Rightarrow> int \<Rightarrow> ProjectUser list" where
  "User_project_users d user_id =
     filter (\<lambda>pu. ProjectUser_user_id pu = user_id) (project_users d)"

text \<open>
  The flush of a changed ticket is \<open>UPDATE tickets SET ... WHERE id = ...\<close> with the
  columns that were assigned; the flush of \<open>db.delete(ticket)\<close> is
  \<open>DELETE FROM tickets WHERE id = ...\<close>.
\<close>

definition update_row :: "db \<Rightarrow> int \<Rightarrow> (Ticket \<Rightarrow> Ticket) \<Rightarrow> db" where
  "update_row d pk assign =
     d\<lparr>tickets := map (\<lambda>t. if Ticket_id t = pk then assign t else t) (tickets d)\<rparr>"

definition delete_row :: "db \<Rightarrow> int \<Rightarrow> db" where
  "delete_row d pk = d\<lparr>tickets := filter (\<lambda>t. Ticket_id t \<noteq> pk) (tickets d)\<rparr>"

text \<open>The next value of the autoincremented primary key of the tickets table.\<close>

definition next_ticket_id :: "db \<Rightarrow> int" where
  "next_ticket_id d = fold max (map Ticket_id (tickets d)) 0 + 1"

definition brief_of_User :: "User \<Rightarrow> Brief" where
  "brief_of_User u = \<lparr>Brief_id = User_id u, Brief_name = User_name u\<rparr>"

definition brief_of_Team :: "Team \<Rightarrow> Brief" where
  "brief_of_Team t = \<lparr>Brief_id = Team_id t, Brief_name = Team_name t\<rparr>"

text \<open>
  \<open>_load_ticket\<close>: the ticket is read back by its identifier with creator, assignee and
  worker team loaded, and validated as a \<open>TicketOut\<close>. The creator is a required field of
  the schema, so validation fails without one, as it does when no row is found.
\<close>

definition load_ticket :: "db \<Rightarrow> int \<Rightarrow> error + TicketOut" where
  "load_ticket d ticket_id =
     (case find (\<lambda>t. Ticket_id t = ticket_id) (tickets d) of
        None \<Rightarrow> Inl ValidationError
      | Some ticket \<Rightarrow>
          (case get_User d (Ticket_created_by ticket) of
             None \<Rightarrow> Inl ValidationError
           | Some creator \<Rightarrow>
               Inr \<lparr>TicketOut_title = Ticket_title ticket,
                    TicketOut_description = Ticket_description ticket,
                    TicketOut_id = Ticket_id ticket,
                    TicketOut_type = Ticket_type ticket,
                    TicketOut_status = Ticket_status ticket,
                    TicketOut_creator = brief_of_User creator,
                    TicketOut_worker_team =
                      (case Ticket_worker_team_id ticket of
                         None \<Rightarrow> None
                       | Some w \<Rightarrow> map_option brief_of_Team (get_Team d w)),
                    TicketOut_assignee =
                      (case Ticket_assigned_to ticket of
                         None \<Rightarrow> None
                       | Some a \<Rightarrow> map_option brief_of_User (get_User d a)),
                    TicketOut_created_at = Ticket_created_at ticket,
                    TicketOut_priority = Ticket_priority ticket,
                    TicketOut_confirmed = Ticket_confirmed ticket,
                    TicketOut_feedback = Ticket_feedback ticket\<rparr>))"

section \<open>Creating a ticket (tickets/repository/ticket.py)\<close>

text \<open>
  \<open>_resolve_assignee\<close>. The pattern match \<open>ilike\<close> of the engine is a parameter: it
  takes the name of the user and the pattern \<open>%name%\<close>. The join lists one row for each
  user and each of that user's project memberships.
\<close>

definition resolve_assignee ::
  "(string \<Rightarrow> string \<Rightarrow> bool) \<Rightarrow> db \<Rightarrow> string option \<Rightarrow> int \<Rightarrow> error + int option" where
  "resolve_assignee ilike d assignee_name project_id =
     (case assignee_name of
        None \<Rightarrow> Inr None
      | Some n \<Rightarrow>
          if n = [] then Inr None
          else
            (case [u. u \<leftarrow> users d, pu \<leftarrow> project_users d,
                      ProjectUser_user_id pu = User_id u,
                      ProjectUser_project_id pu = project_id
                        \<and> ilike (User_name u) (''%'' @ n @ ''%'')] of
               [] \<Rightarrow> Inl NotFound
             | user # _ \<Rightarrow> Inr (Some (User_id user))))"

text \<open>Python's \<open>a or b\<close> on optional integers: \<open>None\<close> and \<open>0\<close> are false.\<close>

definition py_or :: "int option \<Rightarrow> int option \<Rightarrow> int option" where
  "py_or a b = (case a of None \<Rightarrow> b | Some x \<Rightarrow> if x = 0 then b else Some x)"

text \<open>The first lines of \<open>create_ticket\<close> (39 to 44): the effective team identifier.\<close>

definition resolve_team_id :: "db \<Rightarrow> TicketCreate \<Rightarrow> int \<Rightarrow> int option \<Rightarrow> error + int" where
  "resolve_team_id d ticket_in user_id team_id =
     (case py_or team_id (TicketCreate_team_id ticket_in) of
        Some t \<Rightarrow> Inr t
      | None \<Rightarrow>
          (case get_User d user_id of
             None \<Rightarrow> Inl AttributeError
           | Some user \<Rightarrow>
               (case User_teams d (User_id user) of
                  [] \<Rightarrow> Inl BadRequest
                | t # _ \<Rightarrow> Inr (Team_id t))))"

text \<open>Lines 67 to 75 of \<open>create_ticket\<close>: the worker team of the new ticket.\<close>

definition resolve_worker_team :: "Project \<Rightarrow> TicketCreate \<Rightarrow> error + int option" where
  "resolve_worker_team project ticket_in =
     (case TicketCreate_worker_team_id ticket_in of
        Some w \<Rightarrow>
          if Project_worker_team_id project \<noteq> Some w then Inl BadRequest
          else Inr (Some w)
      | None \<Rightarrow>
          if TicketCreate_type ticket_in = TicketType_worker then
            (case Project_worker_team_id project of
               None \<Rightarrow> Inl BadRequest
             | Some p \<Rightarrow> if p = 0 then Inl BadRequest else Inr (Some p))
          else Inr None)"

text \<open>Lines 77 to 87: the row that is added, with the defaults of the columns.\<close>

definition new_ticket ::
  "db \<Rightarrow> datetime \<Rightarrow> TicketCreate \<Rightarrow> int \<Rightarrow> int option \<Rightarrow> int option \<Rightarrow> Team \<Rightarrow> int \<Rightarrow> Ticket" where
  "new_ticket d now ticket_in user_id assigned_user_id assigned_worker_team_id team project_id =
     \<lparr>Ticket_id = next_ticket_id d,
      Ticket_title = TicketCreate_title ticket_in,
      Ticket_description = TicketCreate_description ticket_in,
      Ticket_type = TicketCreate_type ticket_in,
      Ticket_priority =
        (case TicketCreate_priority ticket_in of None \<Rightarrow> Priority_medium | Some p \<Rightarrow> p),
      Ticket_status = Status_open,
      Ticket_created_by = user_id,
      Ticket_assigned_to = assigned_user_id,
      Ticket_worker_team_id = assigned_worker_team_id,
      Ticket_team_id = Team_id team,
      Ticket_project_id = project_id,
      Ticket_feedback = None,
      Ticket_confirmed = False,
      Ticket_created_at = now,
      Ticket_updated_at = None,
      Ticket_closed_at = None\<rparr>"

definition create_ticket ::
  "(string \<Rightarrow> string \<Rightarrow> bool) \<Rightarrow> db \<Rightarrow> datetime \<Rightarrow> TicketCreate \<Rightarrow> int \<Rightarrow> int \<Rightarrow> int option
     \<Rightarrow> (error + TicketOut) \<times> db" where
  "create_ticket ilike d now ticket_in user_id project_id team_id =
     (case resolve_team_id d ticket_in user_id team_id of
        Inl e \<Rightarrow> (Inl e, d)
      | Inr tid \<Rightarrow>
     (case get_Team d tid of
        None \<Rightarrow> (Inl NotFound, d)
      | Some team \<Rightarrow>
     (case get_Project d project_id of
        None \<Rightarrow> (Inl NotFound, d)
      | Some project \<Rightarrow>
     (case find (\<lambda>pu. ProjectUser_user_id pu = user_id
                      \<and> ProjectUser_project_id pu = project_id) (project_users d) of
        None \<Rightarrow> (Inl Forbidden, d)
      | Some author_link \<Rightarrow>
     (case resolve_assignee ilike d (TicketCreate_assigned_to_name ticket_in) project_id of
        Inl e \<Rightarrow> (Inl e, d)
      | Inr assigned_user_id \<Rightarrow>
     (case resolve_worker_team project ticket_in of
        Inl e \<Rightarrow> (Inl e, d)
      | Inr assigned_worker_team_id \<Rightarrow>
          (let ticket = new_ticket d now ticket_in user_id assigned_user_id
                          assigned_worker_team_id team project_id;
               d' = d\<lparr>tickets := tickets d @ [ticket]\<rparr>
           in (load_ticket d' (Ticket_id ticket), d'))))))))"

section \<open>Updating a ticket\<close>

definition ALLOWED_STATUS_TRANSITIONS :: "(string \<times> string list) list" where
  "ALLOWED_STATUS_TRANSITIONS =
     [(''open'', [''in_progress'']),
      (''in_progress'', [''closed'']),
      (''closed'', [])]"

text \<open>
  \<open>now_closed\<close> and \<open>now_updated\<close> are the answers of the two calls of
  \<open>datetime.now(timezone.utc)\<close>.
\<close>

definition update_ticket_status_by_assignee ::
  "db \<Rightarrow> datetime \<Rightarrow> datetime \<Rightarrow> int \<Rightarrow> int \<Rightarrow> TicketStatusUpdate \<Rightarrow> User
     \<Rightarrow> (error + TicketOut) \<times> db" where
  "update_ticket_status_by_assignee d now_closed now_updated ticket_id project_id update
       current_user =
     (case query_ticket d ticket_id project_id of
        None \<Rightarrow> (Inl NotFound, d)
      | Some ticket \<Rightarrow>
          if Ticket_assigned_to ticket \<noteq> Some (User_id current_user) then (Inl Forbidden, d)
          else
            (let curr = TicketStatus_value (Ticket_status ticket);
                 nxt = TicketStatus_value (TicketStatusUpdate_status update)
             in case map_of ALLOWED_STATUS_TRANSITIONS curr of
                  None \<Rightarrow> (Inl KeyError, d)
                | Some allowed \<Rightarrow>
                    if nxt \<notin> set allowed then (Inl BadRequest, d)
                    else
                      (let d' = update_row d (Ticket_id ticket)
                                  (\<lambda>t. let t1 = t\<lparr>Ticket_status :=
                                                    TicketStatusUpdate_status update\<rparr>;
                                           t2 = (if TicketStatus_name
                                                      (TicketStatusUpdate_status update)
                                                    = ''closed''
                                                 then t1\<lparr>Ticket_closed_at :=
                                                           Some now_closed\<rparr>
                                                 else t1)
                                       in t2\<lparr>Ticket_updated_at := Some now_updated\<rparr>)
                       in (load_ticket d' (Ticket_id ticket), d'))))"

definition leave_feedback_by_creator ::
  "db \<Rightarrow> datetime \<Rightarrow> int \<Rightarrow> int \<Rightarrow> TicketFeedbackUpdate \<Rightarrow> User \<Rightarrow> (error + TicketOut) \<times> db" where
  "leave_feedback_by_creator d now ticket_id project_id update current_user =
     (case query_ticket d ticket_id project_id of
        None \<Rightarrow> (Inl NotFound, d)
      | Some ticket \<Rightarrow>
          if Ticket_created_by ticket \<noteq> User_id current_user then (Inl Forbidden, d)
          else if TicketStatus_name (Ticket_status ticket) \<noteq> ''closed'' then (Inl BadRequest, d)
          else
            (let feedback =
                   (case TicketFeedbackUpdate_feedback update of
                      None \<Rightarrow> Ticket_feedback ticket
                    | Some s \<Rightarrow> if s = [] then Ticket_feedback ticket else Some s);
                 d' = update_row d (Ticket_id ticket)
                        (\<lambda>t. t\<lparr>Ticket_feedback := feedback,
                               Ticket_confirmed := TicketFeedbackUpdate_confirmed update,
                               Ticket_updated_at := Some now\<rparr>)
             in (load_ticket d' (Ticket_id ticket), d')))"

text \<open>
  The two membership queries of \<open>update_ticket_assignee\<close>, under the names of the
  variables that hold their results.
\<close>

definition reassign_is_admin :: "db \<Rightarrow> int \<Rightarrow> int \<Rightarrow> ProjectUser option" where
  "reassign_is_admin d assigned_to project_id =
     find (\<lambda>pu. ProjectUser_user_id pu = assigned_to
               \<and> ProjectUser_project_id pu = project_id
               \<and> ProjectUser_role pu = ProjectRole_admin) (project_users d)"

definition reassign_role_link :: "db \<Rightarrow> int \<Rightarrow> int \<Rightarrow> ProjectUser option" where
  "reassign_role_link d assigned_to project_id =
     find (\<lambda>pu. ProjectUser_user_id pu = assigned_to
               \<and> ProjectUser_project_id pu = project_id) (project_users d)"

definition update_ticket_assignee ::
  "db \<Rightarrow> int \<Rightarrow> TicketAssigneeUpdate \<Rightarrow> int \<Rightarrow> (error + TicketOut) \<times> db" where
  "update_ticket_assignee d ticket_id update project_id =
     (case query_ticket d ticket_id project_id of
        None \<Rightarrow> (Inl NotFound, d)
      | Some ticket \<Rightarrow>
     (case reassign_is_admin d (TicketAssigneeUpdate_assigned_to update) project_id of
        None \<Rightarrow> (Inl Forbidden, d)
      | Some is_admin \<Rightarrow>
     (case reassign_role_link d (TicketAssigneeUpdate_assigned_to update) project_id of
        None \<Rightarrow> (Inl Forbidden, d)
      | Some role_link \<Rightarrow>
          if ProjectUser_role role_link \<notin> set [ProjectRole_member, WorkerRole_worker]
          then (Inl Forbidden, d)
          else
            (case get_User d (TicketAssigneeUpdate_assigned_to update) of
               None \<Rightarrow> (Inl BadRequest, d)
             | Some user \<Rightarrow>
                 if \<not> User_is_available user then (Inl BadRequest, d)
                 else
                   (let d' = update_row d (Ticket_id ticket)
                               (\<lambda>t. t\<lparr>Ticket_assigned_to :=
                                        Some (TicketAssigneeUpdate_assigned_to update)\<rparr>)
                    in (load_ticket d' (Ticket_id ticket), d'))))))"

section \<open>Deleting a ticket\<close>

definition delete_ticket :: "db \<Rightarrow> int \<Rightarrow> int \<Rightarrow> User \<Rightarrow> (error + unit) \<times> db" where
  "delete_ticket d ticket_id project_id current_user =
     (case query_ticket d ticket_id project_id of
        None \<Rightarrow> (Inl NotFound, d)
      | Some ticket \<Rightarrow>
          (let is_creator = (Ticket_created_by ticket = User_id current_user);
               is_admin = list_ex (\<lambda>pu. ProjectUser_project_id pu = project_id
                                        \<and> ProjectUser_role pu = ProjectRole_admin)
                            (User_project_users d (User_id current_user))
           in if \<not> (is_creator \<or> is_admin) then (Inl Forbidden, d)
              else (Inr (), delete_row d (Ticket_id ticket))))"

section \<open>Team members (tickets/routers/team_user.py)\<close>

text \<open>\<open>_ensure_team_admin\<close>: \<open>None\<close> is the normal return, \<open>Some e\<close> the exception.\<close>

definition ensure_team_admin :: "db \<Rightarrow> User \<Rightarrow> int \<Rightarrow> error option" where
  "ensure_team_admin d user team_id =
     (if \<not> list_ex (\<lambda>ut. UserTeam_team_id ut = team_id \<and> UserTeam_role ut = TeamRole_admin)
              (User_user_teams d (User_id user))
      then Some Forbidden else None)"

text \<open>
  \<open>add_user_to_team\<close>. The route declares \<open>user_id: int = Path(..., ge=1)\<close> and
  \<open>team_id: int = Path(..., ge=1)\<close>: for a smaller value the framework answers 422 and
  the body does not run. The role is optional in the query string and defaults to
  \<open>TeamRole.member\<close>; \<open>now\<close> is the answer of \<open>datetime.now()\<close>.
\<close>

definition add_user_to_team ::
  "db \<Rightarrow> datetime \<Rightarrow> int \<Rightarrow> int \<Rightarrow> TeamRole option \<Rightarrow> User \<Rightarrow> (error + UserTeam) \<times> db" where
  "add_user_to_team d now user_id team_id role current_user =
     (if \<not> 1 \<le> user_id \<or> \<not> 1 \<le> team_id then (Inl RequestValidationError, d)
      else
     (case ensure_team_admin d current_user team_id of
        Some e \<Rightarrow> (Inl e, d)
      | None \<Rightarrow>
          (case find (\<lambda>ut. UserTeam_user_id ut = user_id \<and> UserTeam_team_id ut = team_id)
                  (user_teams d) of
             Some exists \<Rightarrow> (Inl BadRequest, d)
           | None \<Rightarrow>
               (let association =
                      \<lparr>UserTeam_user_id = user_id,
                       UserTeam_team_id = team_id,
                       UserTeam_role = (case role of None \<Rightarrow> TeamRole_member | Some r \<Rightarrow> r),
                       UserTeam_joined_at = now\<rparr>;
                    d' = d\<lparr>user_teams := user_teams d @ [association]\<rparr>
                in (Inr association, d')))))"

section \<open>Constraints of the store\<close>

text \<open>The stated invariant of a ticket: \<open>closed_at\<close> is set exactly when it is closed.\<close>

definition closed_at_iff_closed :: "Ticket \<Rightarrow> bool" where
  "closed_at_iff_closed t = ((Ticket_closed_at t \<noteq> None) = (Ticket_status t = Status_closed))"

definition closed_at_invariant :: "db \<Rightarrow> bool" where
  "closed_at_invariant d = list_all closed_at_iff_closed (tickets d)"

text \<open>The identifier is the primary key of the tickets table.\<close>

definition unique_ticket_ids :: "db \<Rightarrow> bool" where
  "unique_ticket_ids d = distinct (map Ticket_id (tickets d))"

text \<open>A user has at most one membership of a project.\<close>

definition unique_project_membership :: "db \<Rightarrow> bool" where
  "unique_project_membership d =
     distinct (map (\<lambda>pu. (ProjectUser_user_id pu, ProjectUser_project_id pu))
                 (project_users d))"

text \<open>What a reassignment may change in a row: the assignee and nothing else.\<close>

definition only_assignee_differs :: "Ticket \<Rightarrow> Ticket \<Rightarrow> bool" where
  "only_assignee_differs t t' =
     (Ticket_id t' = Ticket_id t \<and> Ticket_title t' = Ticket_title t
      \<and> Ticket_description t' = Ticket_description t \<and> Ticket_type t' = Ticket_type t
      \<and> Ticket_priority t' = Ticket_priority t \<and> Ticket_status t' = Ticket_status t
      \<and> Ticket_created_by t' = Ticket_created_by t
      \<and> Ticket_worker_team_id t' = Ticket_worker_team_id t
      \<and> Ticket_team_id t' = Ticket_team_id t \<and> Ticket_project_id t' = Ticket_project_id t
      \<and> Ticket_feedback t' = Ticket_feedback t \<and> Ticket_confirmed t' = Ticket_confirmed t
      \<and> Ticket_created_at t' = Ticket_created_at t
      \<and> Ticket_updated_at t' = Ticket_updated_at t
      \<and> Ticket_closed_at t' = Ticket_closed_at t)"

section \<open>A small store for the examples\<close>

definition ann :: User where
  "ann = \<lparr>User_id = 1, User_name = ''ann'', User_is_available = True\<rparr>"

definition bob :: User where
  "bob = \<lparr>User_id = 2, User_name = ''bob'', User_is_available = False\<rparr>"

definition cy :: User where
  "cy = \<lparr>User_id = 3, User_name = ''cy'', User_is_available = True\<rparr>"

definition dee :: User where
  "dee = \<lparr>User_id = 4, User_name = ''dee'', User_is_available = False\<rparr>"

definition open_ticket :: Ticket where
  "open_ticket =
     \<lparr>Ticket_id = 1, Ticket_title = ''printer'', Ticket_description = ''no toner'',
      Ticket_type = TicketType_worker, Ticket_priority = Priority_medium,
      Ticket_status = Status_open, Ticket_created_by = 1, Ticket_assigned_to = Some 2,
      Ticket_worker_team_id = Some 7, Ticket_team_id = 1, Ticket_project_id = 1,
      Ticket_feedback = None, Ticket_confirmed = False, Ticket_created_at = 100,
      Ticket_updated_at = None, Ticket_closed_at = None\<rparr>"

definition closed_ticket :: Ticket where
  "closed_ticket =
     \<lparr>Ticket_id = 2, Ticket_title = ''door'', Ticket_description = ''squeaks'',
      Ticket_type = TicketType_other, Ticket_priority = Priority_low,
      Ticket_status = Status_closed, Ticket_created_by = 1, Ticket_assigned_to = Some 2,
      Ticket_worker_team_id = None, Ticket_team_id = 1, Ticket_project_id = 1,
      Ticket_feedback = Some ''fine'', Ticket_confirmed = False, Ticket_created_at = 80,
      Ticket_updated_at = Some 90, Ticket_closed_at = Some 90\<rparr>"

definition demo_db :: db where
  "demo_db =
     \<lparr>users = [ann, bob, cy, dee],
      teams = [\<lparr>Team_id = 1, Team_name = ''core''\<rparr>, \<lparr>Team_id = 7, Team_name = ''field''\<rparr>],
      projects = [\<lparr>Project_id = 1, Project_worker_team_id = Some 7\<rparr>,
                  \<lparr>Project_id = 2, Project_worker_team_id = None\<rparr>],
      user_teams = [\<lparr>UserTeam_user_id = 1, UserTeam_team_id = 1,
                     UserTeam_role = TeamRole_admin, UserTeam_joined_at = 50\<rparr>,
                    \<lparr>UserTeam_user_id = 2, UserTeam_team_id = 1,
                     UserTeam_role = TeamRole_member, UserTeam_joined_at = 60\<rparr>],
      project_users = [\<lparr>ProjectUser_user_id = 1, ProjectUser_project_id = 1,
                        ProjectUser_role = ProjectRole_admin\<rparr>,
                       \<lparr>ProjectUser_user_id = 2, ProjectUser_project_id = 1,
                        ProjectUser_role = ProjectRole_member\<rparr>,
                       \<lparr>ProjectUser_user_id = 1, ProjectUser_project_id = 2,
                        ProjectUser_role = ProjectRole_admin\<rparr>,
                       \<lparr>ProjectUser_user_id = 3, ProjectUser_project_id = 1,
                        ProjectUser_role = ProjectRole_member\<rparr>,
                       \<lparr>ProjectUser_user_id = 4, ProjectUser_project_id = 1,
                        ProjectUser_role = ProjectRole_admin\<rparr>],
      tickets = [open_ticket, closed_ticket]\<rparr>"

text \<open>The same store without the constraint on memberships: cy is listed twice.\<close>

definition two_rows_db :: db where
  "two_rows_db =
     demo_db\<lparr>project_users := project_users demo_db
                  @ [\<lparr>ProjectUser_user_id = 3, ProjectUser_project_id = 1,
                      ProjectUser_role = ProjectRole_admin\<rparr>]\<rparr>"

text \<open>The same store once work on the first ticket has started.\<close>

definition started_db :: db where
  "started_db =
     demo_db\<lparr>tickets := [open_ticket\<lparr>Ticket_status := Status_in_progress\<rparr>,
                            closed_ticket]\<rparr>"

definition worker_request :: TicketCreate where
  "worker_request =
     \<lparr>TicketCreate_title = ''lamp'', TicketCreate_description = ''flickers'',
      TicketCreate_type = TicketType_worker, TicketCreate_team_id = None,
      TicketCreate_project_id = None, TicketCreate_assigned_to_name = None,
      TicketCreate_assigned_to = None, TicketCreate_worker_team_id = None,
      TicketCreate_priority = Some Priority_medium\<rparr>"

text \<open>A pattern match for the examples: no name matches.\<close>

definition no_match :: "string \<Rightarrow> string \<Rightarrow> bool" where
  "no_match name pattern = False"

section \<open>Evaluation rules\<close>

lemmas demo_defs = demo_db_def two_rows_db_def started_db_def open_ticket_def closed_ticket_def ann_def
  bob_def cy_def dee_def worker_request_def no_match_def

lemmas op_defs = query_ticket_def get_User_def get_Team_def get_Project_def User_teams_def
  User_user_teams_def User_project_users_def update_row_def delete_row_def
  next_ticket_id_def load_ticket_def brief_of_User_def brief_of_Team_def
  resolve_assignee_def py_or_def resolve_team_id_def resolve_worker_team_def
  new_ticket_def reassign_is_admin_def reassign_role_link_def ensure_team_admin_def
  ALLOWED_STATUS_TRANSITIONS_def

section \<open>The status state machine\<close>

lemma allowed_lookup:
  "map_of ALLOWED_STATUS_TRANSITIONS (TicketStatus_value s) =
     Some (case s of Status_open \<Rightarrow> [''in_progress'']
                   | Status_in_progress \<Rightarrow> [''closed'']
                   | Status_closed \<Rightarrow> [])"
  by (cases s) (simp_all add: ALLOWED_STATUS_TRANSITIONS_def)

lemma allowed_edge_iff:
  "(TicketStatus_value n \<in> set (case c of Status_open \<Rightarrow> [''in_progress'']
                   | Status_in_progress \<Rightarrow> [''closed'']
                   | Status_closed \<Rightarrow> []))
    = ((c, n) \<in> {(Status_open, Status_in_progress), (Status_in_progress, Status_closed)})"
  by (cases c; cases n) simp_all

text \<open>
  Claim C1. For a ticket found in the project, \<open>update_ticket_status_by_assignee\<close>
  returns a result only along the edges open to in_progress and in_progress to closed.
  Every other requested edge (the same status again, a skipped step, a step back, any
  step out of closed) ends in an error and leaves the store as it was; the error is
  \<open>BadRequest\<close> once the two earlier guards have passed, that is when the actor is the
  assignee of the ticket.
\<close>

theorem transition_follows_state_machine:
  assumes found: "query_ticket d ticket_id project_id = Some ticket"
  shows "(\<not> isl (fst (update_ticket_status_by_assignee d now_closed now_updated ticket_id
                       project_id update current_user))
          \<longrightarrow> (Ticket_status ticket, TicketStatusUpdate_status update)
                \<in> {(Status_open, Status_in_progress), (Status_in_progress, Status_closed)})
       \<and> ((Ticket_status ticket, TicketStatusUpdate_status update)
                \<notin> {(Status_open, Status_in_progress), (Status_in_progress, Status_closed)}
          \<longrightarrow> isl (fst (update_ticket_status_by_assignee d now_closed now_updated ticket_id
                       project_id update current_user))
              \<and> snd (update_ticket_status_by_assignee d now_closed now_updated ticket_id
                       project_id update current_user) = d
              \<and> (Ticket_assigned_to ticket = Some (User_id current_user)
                 \<longrightarrow> update_ticket_status_by_assignee d now_closed now_updated ticket_id
                       project_id update current_user = (Inl BadRequest, d)))"
  using found
  unfolding update_ticket_status_by_assignee_def Let_def
  by (simp add: allowed_lookup allowed_edge_iff del: insert_iff)

theorem transition_follows_state_machine_witness:
  "query_ticket demo_db 1 1 = Some open_ticket
   \<and> \<not> isl (fst (update_ticket_status_by_assignee demo_db 5 6 1 1
                    \<lparr>TicketStatusUpdate_status = Status_in_progress\<rparr> bob))
   \<and> (Ticket_status open_ticket, Status_in_progress)
        \<in> {(Status_open, Status_in_progress), (Status_in_progress, Status_closed)}
   \<and> (Ticket_status open_ticket, Status_closed)
        \<notin> {(Status_open, Status_in_progress), (Status_in_progress, Status_closed)}
   \<and> Ticket_assigned_to open_ticket = Some (User_id bob)
   \<and> update_ticket_status_by_assignee demo_db 5 6 1 1
        \<lparr>TicketStatusUpdate_status = Status_closed\<rparr> bob = (Inl BadRequest, demo_db)"
proof -
  have found: "query_ticket demo_db 1 1 = Some open_ticket"
    by (simp add: query_ticket_def demo_db_def open_ticket_def closed_ticket_def)
  have ok: "\<not> isl (fst (update_ticket_status_by_assignee demo_db 5 6 1 1
                    \<lparr>TicketStatusUpdate_status = Status_in_progress\<rparr> bob))"
    by (simp add: update_ticket_status_by_assignee_def op_defs demo_defs)
  have who: "Ticket_assigned_to open_ticket = Some (User_id bob)"
    by (simp add: open_ticket_def bob_def)
  have st: "Ticket_status open_ticket = Status_open"
    by (simp add: open_ticket_def)
  from transition_follows_state_machine [OF found, where now_closed = 5 and now_updated = 6
         and update = "\<lparr>TicketStatusUpdate_status = Status_in_progress\<rparr>"
         and current_user = bob]
       transition_follows_state_machine [OF found, where now_closed = 5 and now_updated = 6
         and update = "\<lparr>TicketStatusUpdate_status = Status_closed\<rparr>"
         and current_user = bob]
       found ok who st
  show ?thesis by simp
qed

text \<open>
  Claim C8. \<open>update_ticket_status_by_assignee\<close> fails with \<open>NotFound\<close> when the
  project has no ticket with the given identifier, and with \<open>Forbidden\<close> when the ticket
  exists and the actor is not its assignee, whatever status is requested. The store is
  unchanged in both cases.
\<close>

theorem transition_guards:
  "(query_ticket d ticket_id project_id = None
      \<longrightarrow> update_ticket_status_by_assignee d now_closed now_updated ticket_id project_id
            update current_user = (Inl NotFound, d))
   \<and> (query_ticket d ticket_id project_id = Some ticket
         \<and> Ticket_assigned_to ticket \<noteq> Some (User_id current_user)
      \<longrightarrow> update_ticket_status_by_assignee d now_closed now_updated ticket_id project_id
            update current_user = (Inl Forbidden, d))"
  unfolding update_ticket_status_by_assignee_def by simp

theorem transition_guards_witness:
  "query_ticket demo_db 9 1 = None
   \<and> update_ticket_status_by_assignee demo_db 5 6 9 1
        \<lparr>TicketStatusUpdate_status = Status_in_progress\<rparr> bob = (Inl NotFound, demo_db)
   \<and> query_ticket demo_db 1 1 = Some open_ticket
   \<and> Ticket_assigned_to open_ticket \<noteq> Some (User_id ann)
   \<and> update_ticket_status_by_assignee demo_db 5 6 1 1
        \<lparr>TicketStatusUpdate_status = Status_in_progress\<rparr> ann = (Inl Forbidden, demo_db)"
proof -
  have absent: "query_ticket demo_db 9 1 = None"
    by (simp add: query_ticket_def demo_db_def open_ticket_def closed_ticket_def)
  have found: "query_ticket demo_db 1 1 = Some open_ticket"
    by (simp add: query_ticket_def demo_db_def open_ticket_def closed_ticket_def)
  have other: "Ticket_assigned_to open_ticket \<noteq> Some (User_id ann)"
    by (simp add: open_ticket_def ann_def)
  from transition_guards [where d = demo_db and ticket_id = 9 and project_id = 1
         and now_closed = 5 and now_updated = 6
         and update = "\<lparr>TicketStatusUpdate_status = Status_in_progress\<rparr>"
         and current_user = bob]
       transition_guards [where d = demo_db and ticket_id = 1 and project_id = 1
         and now_closed = 5 and now_updated = 6
         and update = "\<lparr>TicketStatusUpdate_status = Status_in_progress\<rparr>"
         and current_user = ann and ticket = open_ticket]
       absent found other
  show ?thesis by simp
qed


section \<open>Reading rows back\<close>

lemma find_SomeD: "find P xs = Some x \<Longrightarrow> x \<in> set xs \<and> P x"
  by (induction xs) (auto split: if_splits)

lemma find_map_stable:
  assumes "\<And>x. P (g x) = P x"
  shows "find P (map g xs) = map_option g (find P xs)"
  using assms by (induction xs) simp_all

lemma query_after_update:
  assumes found: "query_ticket d ticket_id project_id = Some ticket"
    and keeps: "\<And>t. Ticket_id (assign t) = Ticket_id t
                  \<and> Ticket_project_id (assign t) = Ticket_project_id t"
  shows "query_ticket (update_row d (Ticket_id ticket) assign) ticket_id project_id
           = Some (assign ticket)"
proof -
  let ?P = "\<lambda>t. Ticket_id t = ticket_id \<and> Ticket_project_id t = project_id"
  let ?g = "\<lambda>t. if Ticket_id t = Ticket_id ticket then assign t else t"
  have key: "Ticket_id ticket = ticket_id"
    using found find_SomeD [of ?P "tickets d" ticket] by (simp add: query_ticket_def)
  have "\<And>x. ?P (?g x) = ?P x" by (simp add: keeps)
  then have "find ?P (map ?g (tickets d)) = map_option ?g (find ?P (tickets d))"
    by (rule find_map_stable)
  with found key show ?thesis
    by (simp add: query_ticket_def update_row_def)
qed

section \<open>Feedback\<close>

text \<open>
  Claim C5. \<open>leave_feedback_by_creator\<close> fails with \<open>NotFound\<close> when the ticket is not
  in the project, with \<open>Forbidden\<close> when the actor is not its creator, and with
  \<open>BadRequest\<close> when its status is not closed, the store staying as it was. Otherwise
  the ticket read back afterwards is the old one with the confirmed flag overwritten,
  \<open>updated_at\<close> stamped, and the feedback replaced only by a supplied non-empty text
  (an absent or empty text keeps the existing feedback); the result is that ticket
  loaded again.
\<close>

theorem feedback_by_creator:
  assumes run: "leave_feedback_by_creator d now ticket_id project_id update current_user
                  = (res, d')"
  shows "(query_ticket d ticket_id project_id = None \<longrightarrow> res = Inl NotFound \<and> d' = d)
       \<and> (query_ticket d ticket_id project_id = Some ticket
            \<and> Ticket_created_by ticket \<noteq> User_id current_user
          \<longrightarrow> res = Inl Forbidden \<and> d' = d)
       \<and> (query_ticket d ticket_id project_id = Some ticket
            \<and> Ticket_created_by ticket = User_id current_user
            \<and> Ticket_status ticket \<noteq> Status_closed
          \<longrightarrow> res = Inl BadRequest \<and> d' = d)
       \<and> (query_ticket d ticket_id project_id = Some ticket
            \<and> Ticket_created_by ticket = User_id current_user
            \<and> Ticket_status ticket = Status_closed
          \<longrightarrow> query_ticket d' ticket_id project_id =
                Some (ticket\<lparr>Ticket_feedback :=
                               (if TicketFeedbackUpdate_feedback update = None
                                   \<or> TicketFeedbackUpdate_feedback update = Some []
                                then Ticket_feedback ticket
                                else TicketFeedbackUpdate_feedback update),
                             Ticket_confirmed := TicketFeedbackUpdate_confirmed update,
                             Ticket_updated_at := Some now\<rparr>)
              \<and> res = load_ticket d' ticket_id)"
proof (cases "query_ticket d ticket_id project_id")
  case None
  with run show ?thesis by (simp add: leave_feedback_by_creator_def)
next
  case (Some found)
  have key: "Ticket_id found = ticket_id"
    using Some by (auto simp add: query_ticket_def dest: find_SomeD)
  have name: "(TicketStatus_name (Ticket_status found) = ''closed'')
                = (Ticket_status found = Status_closed)"
    by (cases "Ticket_status found") simp_all
  show ?thesis
  proof (cases "Ticket_created_by found = User_id current_user
                  \<and> Ticket_status found = Status_closed")
    case False
    with run Some name show ?thesis
      by (auto simp add: leave_feedback_by_creator_def split: if_splits)
  next
    case True
    let ?fb = "case TicketFeedbackUpdate_feedback update of
                 None \<Rightarrow> Ticket_feedback found
               | Some s \<Rightarrow> if s = [] then Ticket_feedback found else Some s"
    let ?assign = "\<lambda>t. t\<lparr>Ticket_feedback := ?fb,
                          Ticket_confirmed := TicketFeedbackUpdate_confirmed update,
                          Ticket_updated_at := Some now\<rparr>"
    from run Some True name
    have d': "d' = update_row d (Ticket_id found) ?assign"
      and res: "res = load_ticket d' (Ticket_id found)"
      by (auto simp add: leave_feedback_by_creator_def Let_def)
    have "query_ticket (update_row d (Ticket_id found) ?assign) ticket_id project_id
            = Some (?assign found)"
      by (rule query_after_update [OF Some]) simp
    with d' res key Some True show ?thesis
      by (auto split: option.splits)
  qed
qed

section \<open>Team members\<close>

text \<open>
  Claim C9. For a user and a team identifier within the bounds of the route (both at
  least 1), \<open>add_user_to_team\<close> fails with \<open>Forbidden\<close> unless the caller has a
  membership of the team with the admin role. For such a caller it fails with
  \<open>BadRequest\<close> when the user already has a membership of the team, and no row is
  added; otherwise it appends one membership with the given role (member when none is
  given) and the current time, and returns it. An identifier below 1 is answered with
  422 and the store is left as it was.
\<close>

theorem add_member_guards:
  assumes run: "add_user_to_team d now user_id team_id role current_user = (res, d')"
  shows "(user_id < 1 \<or> team_id < 1 \<longrightarrow> res = Inl RequestValidationError \<and> d' = d)
       \<and> (1 \<le> user_id \<and> 1 \<le> team_id
            \<and> \<not> (\<exists>ut \<in> set (user_teams d). UserTeam_user_id ut = User_id current_user
              \<and> UserTeam_team_id ut = team_id \<and> UserTeam_role ut = TeamRole_admin)
          \<longrightarrow> res = Inl Forbidden \<and> d' = d)
       \<and> (1 \<le> user_id \<and> 1 \<le> team_id
            \<and> (\<exists>ut \<in> set (user_teams d). UserTeam_user_id ut = User_id current_user
              \<and> UserTeam_team_id ut = team_id \<and> UserTeam_role ut = TeamRole_admin)
            \<and> (\<exists>ut \<in> set (user_teams d). UserTeam_user_id ut = user_id
              \<and> UserTeam_team_id ut = team_id)
          \<longrightarrow> res = Inl BadRequest \<and> d' = d)
       \<and> (1 \<le> user_id \<and> 1 \<le> team_id
            \<and> (\<exists>ut \<in> set (user_teams d). UserTeam_user_id ut = User_id current_user
              \<and> UserTeam_team_id ut = team_id \<and> UserTeam_role ut = TeamRole_admin)
            \<and> \<not> (\<exists>ut \<in> set (user_teams d). UserTeam_user_id ut = user_id
              \<and> UserTeam_team_id ut = team_id)
          \<longrightarrow> res = Inr \<lparr>UserTeam_user_id = user_id, UserTeam_team_id = team_id,
                  UserTeam_role = (case role of None \<Rightarrow> TeamRole_member | Some r \<Rightarrow> r),
                  UserTeam_joined_at = now\<rparr>
              \<and> d' = d\<lparr>user_teams := user_teams d @ [\<lparr>UserTeam_user_id = user_id, UserTeam_team_id = team_id,
                  UserTeam_role = (case role of None \<Rightarrow> TeamRole_member | Some r \<Rightarrow> r),
                  UserTeam_joined_at = now\<rparr>]\<rparr>)"
proof (cases "1 \<le> user_id \<and> 1 \<le> team_id")
  case False
  with run show ?thesis
    by (auto simp add: add_user_to_team_def)
next
  case True
  then have valid: "\<not> (user_id < 1 \<or> team_id < 1)"
    by simp
  have admin: "(ensure_team_admin d current_user team_id = None)
                 = (\<exists>ut \<in> set (user_teams d). UserTeam_user_id ut = User_id current_user
              \<and> UserTeam_team_id ut = team_id \<and> UserTeam_role ut = TeamRole_admin)"
    by (auto simp add: ensure_team_admin_def User_user_teams_def list_ex_iff)
  have forbidden: "ensure_team_admin d current_user team_id \<noteq> None
                     \<Longrightarrow> ensure_team_admin d current_user team_id = Some Forbidden"
    by (simp add: ensure_team_admin_def split: if_splits)
  have dup: "(find (\<lambda>ut. UserTeam_user_id ut = user_id \<and> UserTeam_team_id ut = team_id)
                (user_teams d) = None)
               = (\<not> (\<exists>ut \<in> set (user_teams d). UserTeam_user_id ut = user_id
              \<and> UserTeam_team_id ut = team_id))"
    by (auto simp add: find_None_iff)
  show ?thesis
  proof (cases "ensure_team_admin d current_user team_id")
    case (Some e)
    with forbidden have "e = Forbidden" by simp
    with run Some True have "res = Inl Forbidden" and "d' = d"
      by (simp_all add: add_user_to_team_def)
    moreover from Some admin
    have "\<not> (\<exists>ut \<in> set (user_teams d). UserTeam_user_id ut = User_id current_user
              \<and> UserTeam_team_id ut = team_id \<and> UserTeam_role ut = TeamRole_admin)"
      by simp
    ultimately show ?thesis using valid by blast
  next
    case None
    with admin
    have is_admin: "(\<exists>ut \<in> set (user_teams d). UserTeam_user_id ut = User_id current_user
              \<and> UserTeam_team_id ut = team_id \<and> UserTeam_role ut = TeamRole_admin)"
      by simp
    show ?thesis
    proof (cases "find (\<lambda>ut. UserTeam_user_id ut = user_id \<and> UserTeam_team_id ut = team_id)
                   (user_teams d)")
      case (Some exists)
      with run None True have "res = Inl BadRequest" and "d' = d"
        by (simp_all add: add_user_to_team_def)
      moreover from Some dup
      have "(\<exists>ut \<in> set (user_teams d). UserTeam_user_id ut = user_id
              \<and> UserTeam_team_id ut = team_id)"
        by simp
      ultimately show ?thesis using is_admin valid by blast
    next
      case absent: None
      with run None True
      have "res = Inr \<lparr>UserTeam_user_id = user_id, UserTeam_team_id = team_id,
                  UserTeam_role = (case role of None \<Rightarrow> TeamRole_member | Some r \<Rightarrow> r),
                  UserTeam_joined_at = now\<rparr>"
        and "d' = d\<lparr>user_teams := user_teams d @ [\<lparr>UserTeam_user_id = user_id, UserTeam_team_id = team_id,
                  UserTeam_role = (case role of None \<Rightarrow> TeamRole_member | Some r \<Rightarrow> r),
                  UserTeam_joined_at = now\<rparr>]\<rparr>"
        by (auto simp add: add_user_to_team_def Let_def)
      moreover from absent dup
      have "\<not> (\<exists>ut \<in> set (user_teams d). UserTeam_user_id ut = user_id
              \<and> UserTeam_team_id ut = team_id)"
        by simp
      ultimately show ?thesis using is_admin valid by blast
    qed
  qed
qed

theorem feedback_by_creator_witness:
  "query_ticket demo_db 9 1 = None
   \<and> leave_feedback_by_creator demo_db 200 9 1
         \<lparr>TicketFeedbackUpdate_feedback = None, TicketFeedbackUpdate_confirmed = True\<rparr> ann
       = (Inl NotFound, demo_db)
   \<and> query_ticket demo_db 2 1 = Some closed_ticket
   \<and> Ticket_created_by closed_ticket \<noteq> User_id bob
   \<and> leave_feedback_by_creator demo_db 200 2 1
         \<lparr>TicketFeedbackUpdate_feedback = None, TicketFeedbackUpdate_confirmed = True\<rparr> bob
       = (Inl Forbidden, demo_db)
   \<and> query_ticket demo_db 1 1 = Some open_ticket
   \<and> Ticket_created_by open_ticket = User_id ann
   \<and> Ticket_status open_ticket \<noteq> Status_closed
   \<and> leave_feedback_by_creator demo_db 200 1 1
         \<lparr>TicketFeedbackUpdate_feedback = None, TicketFeedbackUpdate_confirmed = True\<rparr> ann
       = (Inl BadRequest, demo_db)
   \<and> Ticket_created_by closed_ticket = User_id ann
   \<and> Ticket_status closed_ticket = Status_closed
   \<and> query_ticket
         (snd (leave_feedback_by_creator demo_db 200 2 1
                 \<lparr>TicketFeedbackUpdate_feedback = Some [],
                  TicketFeedbackUpdate_confirmed = True\<rparr> ann)) 2 1
       = Some (closed_ticket\<lparr>Ticket_feedback := Some ''fine'', Ticket_confirmed := True,
                             Ticket_updated_at := Some 200\<rparr>)"
proof -
  let ?quiet = "\<lparr>TicketFeedbackUpdate_feedback = None, TicketFeedbackUpdate_confirmed = True\<rparr>"
  let ?empty = "\<lparr>TicketFeedbackUpdate_feedback = Some [],
                 TicketFeedbackUpdate_confirmed = True\<rparr>"
  have absent: "query_ticket demo_db 9 1 = None"
    and second: "query_ticket demo_db 2 1 = Some closed_ticket"
    and first: "query_ticket demo_db 1 1 = Some open_ticket"
    by (simp_all add: query_ticket_def demo_db_def open_ticket_def closed_ticket_def)
  have facts: "Ticket_created_by closed_ticket \<noteq> User_id bob"
    "Ticket_created_by open_ticket = User_id ann"
    "Ticket_status open_ticket \<noteq> Status_closed"
    "Ticket_created_by closed_ticket = User_id ann"
    "Ticket_status closed_ticket = Status_closed"
    "Ticket_feedback closed_ticket = Some ''fine''"
    by (simp_all add: open_ticket_def closed_ticket_def ann_def bob_def)
  have run: "\<And>i u who. leave_feedback_by_creator demo_db 200 i 1 u who
               = (fst (leave_feedback_by_creator demo_db 200 i 1 u who),
                  snd (leave_feedback_by_creator demo_db 200 i 1 u who))"
    by simp
  from feedback_by_creator [OF run [of 9 ?quiet ann]] absent
  have one: "leave_feedback_by_creator demo_db 200 9 1 ?quiet ann = (Inl NotFound, demo_db)"
    by (simp add: prod_eq_iff)
  from feedback_by_creator [OF run [of 2 ?quiet bob], where ticket = closed_ticket]
    second facts
  have two: "leave_feedback_by_creator demo_db 200 2 1 ?quiet bob = (Inl Forbidden, demo_db)"
    by (simp add: prod_eq_iff)
  from feedback_by_creator [OF run [of 1 ?quiet ann], where ticket = open_ticket]
    first facts
  have three: "leave_feedback_by_creator demo_db 200 1 1 ?quiet ann
                 = (Inl BadRequest, demo_db)"
    by (simp add: prod_eq_iff)
  from feedback_by_creator [OF run [of 2 ?empty ann], where ticket = closed_ticket]
    second facts
  have four: "query_ticket (snd (leave_feedback_by_creator demo_db 200 2 1 ?empty ann)) 2 1
       = Some (closed_ticket\<lparr>Ticket_feedback := Some ''fine'', Ticket_confirmed := True,
                             Ticket_updated_at := Some 200\<rparr>)"
    by simp
  from absent second first facts one two three four show ?thesis by simp
qed

theorem add_member_guards_witness:
  "add_user_to_team demo_db 300 0 1 None ann = (Inl RequestValidationError, demo_db)
   \<and> \<not> (\<exists>ut \<in> set (user_teams demo_db). UserTeam_user_id ut = User_id bob
          \<and> UserTeam_team_id ut = 1 \<and> UserTeam_role ut = TeamRole_admin)
   \<and> add_user_to_team demo_db 300 3 1 None bob = (Inl Forbidden, demo_db)
   \<and> (\<exists>ut \<in> set (user_teams demo_db). UserTeam_user_id ut = User_id ann
          \<and> UserTeam_team_id ut = 1 \<and> UserTeam_role ut = TeamRole_admin)
   \<and> (\<exists>ut \<in> set (user_teams demo_db). UserTeam_user_id ut = 2 \<and> UserTeam_team_id ut = 1)
   \<and> add_user_to_team demo_db 300 2 1 None ann = (Inl BadRequest, demo_db)
   \<and> \<not> (\<exists>ut \<in> set (user_teams demo_db). UserTeam_user_id ut = 3 \<and> UserTeam_team_id ut = 1)
   \<and> add_user_to_team demo_db 300 3 1 None ann
       = (Inr \<lparr>UserTeam_user_id = 3, UserTeam_team_id = 1, UserTeam_role = TeamRole_member,
               UserTeam_joined_at = 300\<rparr>,
          demo_db\<lparr>user_teams := user_teams demo_db
                     @ [\<lparr>UserTeam_user_id = 3, UserTeam_team_id = 1,
                         UserTeam_role = TeamRole_member, UserTeam_joined_at = 300\<rparr>]\<rparr>)"
proof -
  have not_admin: "\<not> (\<exists>ut \<in> set (user_teams demo_db). UserTeam_user_id ut = User_id bob
          \<and> UserTeam_team_id ut = 1 \<and> UserTeam_role ut = TeamRole_admin)"
    and admin: "\<exists>ut \<in> set (user_teams demo_db). UserTeam_user_id ut = User_id ann
          \<and> UserTeam_team_id ut = 1 \<and> UserTeam_role ut = TeamRole_admin"
    and member: "\<exists>ut \<in> set (user_teams demo_db). UserTeam_user_id ut = 2
          \<and> UserTeam_team_id ut = 1"
    and fresh: "\<not> (\<exists>ut \<in> set (user_teams demo_db). UserTeam_user_id ut = 3
          \<and> UserTeam_team_id ut = 1)"
    by (simp_all add: demo_db_def ann_def bob_def)
  have run: "\<And>u who. add_user_to_team demo_db 300 u 1 None who
               = (fst (add_user_to_team demo_db 300 u 1 None who),
                  snd (add_user_to_team demo_db 300 u 1 None who))"
    by simp
  from add_member_guards [OF run [of 0 ann]]
  have zero: "add_user_to_team demo_db 300 0 1 None ann
                = (Inl RequestValidationError, demo_db)"
    by (simp add: prod_eq_iff)
  from add_member_guards [OF run [of 3 bob]] not_admin
  have one: "add_user_to_team demo_db 300 3 1 None bob = (Inl Forbidden, demo_db)"
    by (simp add: prod_eq_iff)
  from add_member_guards [OF run [of 2 ann]] admin member
  have two: "add_user_to_team demo_db 300 2 1 None ann = (Inl BadRequest, demo_db)"
    by (simp add: prod_eq_iff)
  from add_member_guards [OF run [of 3 ann]] admin fresh
  have three: "add_user_to_team demo_db 300 3 1 None ann
       = (Inr \<lparr>UserTeam_user_id = 3, UserTeam_team_id = 1, UserTeam_role = TeamRole_member,
               UserTeam_joined_at = 300\<rparr>,
          demo_db\<lparr>user_teams := user_teams demo_db
                     @ [\<lparr>UserTeam_user_id = 3, UserTeam_team_id = 1,
                         UserTeam_role = TeamRole_member, UserTeam_joined_at = 300\<rparr>]\<rparr>)"
    by (simp add: prod_eq_iff)
  from not_admin admin member fresh zero one two three show ?thesis by blast
qed

section \<open>Reassignment\<close>

lemma unique_membership_link:
  assumes unique: "unique_project_membership d"
    and admin: "reassign_is_admin d assigned_to project_id = Some a"
  shows "reassign_role_link d assigned_to project_id = Some a"
proof -
  let ?key = "\<lambda>pu. (ProjectUser_user_id pu, ProjectUser_project_id pu)"
  from admin have a: "a \<in> set (project_users d)" "?key a = (assigned_to, project_id)"
    by (auto simp add: reassign_is_admin_def dest: find_SomeD)
  then have "reassign_role_link d assigned_to project_id \<noteq> None"
    by (auto simp add: reassign_role_link_def find_None_iff)
  then obtain l where l: "reassign_role_link d assigned_to project_id = Some l"
    by blast
  then have "l \<in> set (project_users d)" "?key l = (assigned_to, project_id)"
    by (auto simp add: reassign_role_link_def dest: find_SomeD)
  moreover from unique have "inj_on ?key (set (project_users d))"
    by (simp add: unique_project_membership_def distinct_map)
  ultimately have "l = a"
    using a by (auto dest: inj_onD)
  with l show ?thesis by simp
qed

lemma admin_link_role:
  "reassign_is_admin d assigned_to project_id = Some a \<Longrightarrow> ProjectUser_role a = ProjectRole_admin"
  by (auto simp add: reassign_is_admin_def dest: find_SomeD)

text \<open>
  Claim C3. When a user has at most one membership of a project,
  \<open>update_ticket_assignee\<close> always ends in an error and leaves the store, and so the
  assignee of every ticket, as it was. For a ticket found in the project the error is
  \<open>Forbidden\<close>: a target that passes the query for an admin membership has that same
  row as its only membership, whose role is admin and so neither member nor worker.
\<close>

theorem reassign_always_refused:
  assumes unique: "unique_project_membership d"
  shows "isl (fst (update_ticket_assignee d ticket_id update project_id))
       \<and> snd (update_ticket_assignee d ticket_id update project_id) = d
       \<and> (query_ticket d ticket_id project_id = Some ticket
          \<longrightarrow> update_ticket_assignee d ticket_id update project_id = (Inl Forbidden, d))
       \<and> (reassign_is_admin d assigned_to project_id \<noteq> None
          \<longrightarrow> map_option ProjectUser_role (reassign_role_link d assigned_to project_id)
                = Some ProjectRole_admin)"
proof -
  have both: "\<And>who a. reassign_is_admin d who project_id = Some a
                \<Longrightarrow> reassign_role_link d who project_id = Some a
                    \<and> ProjectUser_role a = ProjectRole_admin"
    using unique by (simp add: unique_membership_link admin_link_role)
  have run: "update_ticket_assignee d ticket_id update project_id =
               (case query_ticket d ticket_id project_id of
                  None \<Rightarrow> (Inl NotFound, d) | Some t \<Rightarrow> (Inl Forbidden, d))"
  proof (cases "query_ticket d ticket_id project_id")
    case None
    then show ?thesis by (simp add: update_ticket_assignee_def)
  next
    case (Some t)
    show ?thesis
    proof (cases "reassign_is_admin d (TicketAssigneeUpdate_assigned_to update) project_id")
      case None
      with Some show ?thesis by (simp add: update_ticket_assignee_def)
    next
      case (Some a)
      with both [OF Some] \<open>query_ticket d ticket_id project_id = Some t\<close>
      show ?thesis by (simp add: update_ticket_assignee_def)
    qed
  qed
  have link: "reassign_is_admin d assigned_to project_id \<noteq> None
          \<longrightarrow> map_option ProjectUser_role (reassign_role_link d assigned_to project_id)
                = Some ProjectRole_admin"
    using both by auto
  from run link show ?thesis
    by (cases "query_ticket d ticket_id project_id") simp_all
qed

text \<open>
  The example store meets the constraint; the admin ann and the member cy are both
  refused as targets.
\<close>

theorem reassign_always_refused_witness:
  "unique_project_membership demo_db
   \<and> query_ticket demo_db 1 1 = Some open_ticket
   \<and> reassign_is_admin demo_db 1 1 \<noteq> None
   \<and> update_ticket_assignee demo_db 1 \<lparr>TicketAssigneeUpdate_assigned_to = 1\<rparr> 1
       = (Inl Forbidden, demo_db)
   \<and> update_ticket_assignee demo_db 1 \<lparr>TicketAssigneeUpdate_assigned_to = 3\<rparr> 1
       = (Inl Forbidden, demo_db)
   \<and> map_option ProjectUser_role (reassign_role_link demo_db 1 1) = Some ProjectRole_admin"
proof -
  have unique: "unique_project_membership demo_db"
    by (simp add: unique_project_membership_def demo_db_def)
  have found: "query_ticket demo_db 1 1 = Some open_ticket"
    by (simp add: query_ticket_def demo_db_def open_ticket_def closed_ticket_def)
  have admin: "reassign_is_admin demo_db 1 1 \<noteq> None"
    by (simp add: reassign_is_admin_def demo_db_def)
  from reassign_always_refused [OF unique, where ticket_id = 1 and project_id = 1
         and update = "\<lparr>TicketAssigneeUpdate_assigned_to = 1\<rparr>" and ticket = open_ticket
         and assigned_to = 1]
       reassign_always_refused [OF unique, where ticket_id = 1 and project_id = 1
         and update = "\<lparr>TicketAssigneeUpdate_assigned_to = 3\<rparr>" and ticket = open_ticket
         and assigned_to = 1]
       unique found admin
  show ?thesis by simp
qed




lemma update_row_frame:
  assumes "\<And>t. only_assignee_differs t (assign t)"
  shows "list_all2 only_assignee_differs (tickets d) (tickets (update_row d pk assign))"
proof -
  have same: "\<And>t. only_assignee_differs t t"
    by (simp add: only_assignee_differs_def)
  show ?thesis
    by (simp add: update_row_def list_all2_map2 list_all2_same assms same)
qed

text \<open>
  Claim C10. Whatever \<open>update_ticket_assignee\<close> returns, each ticket of the new store
  differs from the old one in \<open>assigned_to\<close> at most (\<open>updated_at\<close> and every other
  column are the same) and no other table changes. When it returns a result, the ticket
  read back is the old one with the new assignee.
\<close>

theorem reassign_changes_assignee_only:
  assumes run: "update_ticket_assignee d ticket_id update project_id = (res, d')"
  shows "list_all2 only_assignee_differs (tickets d) (tickets d')
       \<and> d' = d\<lparr>tickets := tickets d'\<rparr>
       \<and> (\<not> isl res
          \<longrightarrow> query_ticket d' ticket_id project_id
               = map_option
                   (\<lambda>t. t\<lparr>Ticket_assigned_to :=
                            Some (TicketAssigneeUpdate_assigned_to update)\<rparr>)
                   (query_ticket d ticket_id project_id))"
proof -
  let ?assign = "\<lambda>t. t\<lparr>Ticket_assigned_to := Some (TicketAssigneeUpdate_assigned_to update)\<rparr>"
  have same: "list_all2 only_assignee_differs (tickets d) (tickets d)"
    by (simp add: list_all2_same only_assignee_differs_def)
  consider (refused) e where "res = Inl e" "d' = d"
    | (updated) t where "query_ticket d ticket_id project_id = Some t"
        "d' = update_row d (Ticket_id t) ?assign"
    using run
    by (auto simp add: update_ticket_assignee_def Let_def split: option.splits if_splits)
  then show ?thesis
  proof cases
    case refused
    with same show ?thesis by simp
  next
    case updated
    have "list_all2 only_assignee_differs (tickets d)
            (tickets (update_row d (Ticket_id t) ?assign))"
      by (rule update_row_frame) (simp add: only_assignee_differs_def)
    moreover have "query_ticket (update_row d (Ticket_id t) ?assign) ticket_id project_id
                     = Some (?assign t)"
      by (rule query_after_update [OF updated(1)]) simp
    ultimately show ?thesis
      using updated by (simp add: update_row_def)
  qed
qed

text \<open>
  An update takes place in the store in which cy has two memberships of the project.
\<close>

theorem reassign_changes_assignee_only_witness:
  "update_ticket_assignee two_rows_db 1 \<lparr>TicketAssigneeUpdate_assigned_to = 3\<rparr> 1
     = (fst (update_ticket_assignee two_rows_db 1 \<lparr>TicketAssigneeUpdate_assigned_to = 3\<rparr> 1),
        two_rows_db\<lparr>tickets := [open_ticket\<lparr>Ticket_assigned_to := Some 3\<rparr>, closed_ticket]\<rparr>)
   \<and> \<not> isl (fst (update_ticket_assignee two_rows_db 1
                    \<lparr>TicketAssigneeUpdate_assigned_to = 3\<rparr> 1))
   \<and> list_all2 only_assignee_differs (tickets two_rows_db)
        [open_ticket\<lparr>Ticket_assigned_to := Some 3\<rparr>, closed_ticket]
   \<and> query_ticket (two_rows_db\<lparr>tickets := [open_ticket\<lparr>Ticket_assigned_to := Some 3\<rparr>,
                                              closed_ticket]\<rparr>) 1 1
       = map_option (\<lambda>t. t\<lparr>Ticket_assigned_to := Some 3\<rparr>) (query_ticket two_rows_db 1 1)"
proof -
  let ?d' = "two_rows_db\<lparr>tickets := [open_ticket\<lparr>Ticket_assigned_to := Some 3\<rparr>,
                                       closed_ticket]\<rparr>"
  let ?res = "fst (update_ticket_assignee two_rows_db 1
                     \<lparr>TicketAssigneeUpdate_assigned_to = 3\<rparr> 1)"
  have run: "update_ticket_assignee two_rows_db 1 \<lparr>TicketAssigneeUpdate_assigned_to = 3\<rparr> 1
               = (?res, ?d')"
    by (simp add: update_ticket_assignee_def op_defs demo_defs)
  have ok: "\<not> isl ?res"
    by (simp add: update_ticket_assignee_def op_defs demo_defs)
  from reassign_changes_assignee_only [OF run] run ok
  show ?thesis by simp
qed


section \<open>The closing time\<close>

lemma invariant_update_row:
  assumes "closed_at_invariant d"
    and "\<And>t. t \<in> set (tickets d) \<Longrightarrow> Ticket_id t = pk \<Longrightarrow> closed_at_iff_closed (assign t)"
  shows "closed_at_invariant (update_row d pk assign)"
  using assms by (auto simp add: closed_at_invariant_def update_row_def list_all_iff)

lemma unique_update_row:
  assumes "\<And>t. Ticket_id (assign t) = Ticket_id t"
  shows "unique_ticket_ids (update_row d pk assign) = unique_ticket_ids d"
proof -
  have same: "map (Ticket_id \<circ> (\<lambda>t. if Ticket_id t = pk then assign t else t)) (tickets d)
          = map Ticket_id (tickets d)"
    by (rule map_cong) (simp_all add: assms)
  show ?thesis
    by (simp add: unique_ticket_ids_def update_row_def same)
qed

lemma unique_id_row:
  assumes "unique_ticket_ids d" and "t \<in> set (tickets d)" and "t' \<in> set (tickets d)"
    and "Ticket_id t = Ticket_id t'"
  shows "t = t'"
proof -
  from assms(1) have "inj_on Ticket_id (set (tickets d))"
    by (simp add: unique_ticket_ids_def distinct_map)
  with assms(2-4) show ?thesis by (auto dest: inj_onD)
qed

lemma query_ticket_row:
  "query_ticket d ticket_id project_id = Some t
     \<Longrightarrow> t \<in> set (tickets d) \<and> Ticket_id t = ticket_id \<and> Ticket_project_id t = project_id"
  by (auto simp add: query_ticket_def dest: find_SomeD)

lemma invariant_row:
  "closed_at_invariant d \<Longrightarrow> t \<in> set (tickets d) \<Longrightarrow> closed_at_iff_closed t"
  by (simp add: closed_at_invariant_def list_all_iff)

text \<open>What the status update does to the store, case by case.\<close>

lemma status_update_cases:
  assumes found: "query_ticket d ticket_id project_id = Some ticket"
  shows "update_ticket_status_by_assignee d now_closed now_updated ticket_id project_id update
           current_user =
         (if Ticket_assigned_to ticket \<noteq> Some (User_id current_user) then (Inl Forbidden, d)
          else if (Ticket_status ticket, TicketStatusUpdate_status update)
                    \<notin> {(Status_open, Status_in_progress), (Status_in_progress, Status_closed)}
          then (Inl BadRequest, d)
          else
            (load_ticket
               (update_row d (Ticket_id ticket)
                 (\<lambda>t. t\<lparr>Ticket_status := TicketStatusUpdate_status update,
                        Ticket_closed_at :=
                          (if TicketStatusUpdate_status update = Status_closed
                           then Some now_closed else Ticket_closed_at t),
                        Ticket_updated_at := Some now_updated\<rparr>))
               (Ticket_id ticket),
             update_row d (Ticket_id ticket)
                 (\<lambda>t. t\<lparr>Ticket_status := TicketStatusUpdate_status update,
                        Ticket_closed_at :=
                          (if TicketStatusUpdate_status update = Status_closed
                           then Some now_closed else Ticket_closed_at t),
                        Ticket_updated_at := Some now_updated\<rparr>)))"
proof -
  have name: "(TicketStatus_name (TicketStatusUpdate_status update) = ''closed'')
                = (TicketStatusUpdate_status update = Status_closed)"
    by (cases "TicketStatusUpdate_status update") simp_all
  have assign: "(\<lambda>t. let t1 = t\<lparr>Ticket_status := TicketStatusUpdate_status update\<rparr>;
                         t2 = (if TicketStatus_name (TicketStatusUpdate_status update)
                                    = ''closed''
                               then t1\<lparr>Ticket_closed_at := Some now_closed\<rparr> else t1)
                     in t2\<lparr>Ticket_updated_at := Some now_updated\<rparr>)
                = (\<lambda>t. t\<lparr>Ticket_status := TicketStatusUpdate_status update,
                        Ticket_closed_at :=
                          (if TicketStatusUpdate_status update = Status_closed
                           then Some now_closed else Ticket_closed_at t),
                        Ticket_updated_at := Some now_updated\<rparr>)"
    by (rule ext) (simp add: Let_def name)
  show ?thesis
    using found
    unfolding update_ticket_status_by_assignee_def assign
    by (simp add: Let_def allowed_lookup allowed_edge_iff del: insert_iff)
qed

lemma status_update_invariant:
  assumes inv: "closed_at_invariant d" and pk: "unique_ticket_ids d"
  shows "closed_at_invariant
           (snd (update_ticket_status_by_assignee d now_closed now_updated ticket_id
                   project_id update current_user))"
proof (cases "query_ticket d ticket_id project_id")
  case None
  with inv show ?thesis by (simp add: update_ticket_status_by_assignee_def)
next
  case (Some ticket)
  let ?new = "TicketStatusUpdate_status update"
  let ?assign = "\<lambda>t. t\<lparr>Ticket_status := ?new,
                        Ticket_closed_at :=
                          (if ?new = Status_closed then Some now_closed else Ticket_closed_at t),
                        Ticket_updated_at := Some now_updated\<rparr>"
  have row: "ticket \<in> set (tickets d)"
    using Some by (simp add: query_ticket_row)
  have stamped: "closed_at_invariant (update_row d (Ticket_id ticket) ?assign)"
    if edge: "(Ticket_status ticket, ?new)
                \<in> {(Status_open, Status_in_progress), (Status_in_progress, Status_closed)}"
  proof (rule invariant_update_row [OF inv])
    fix t assume t: "t \<in> set (tickets d)" "Ticket_id t = Ticket_id ticket"
    with pk row have "t = ticket" by (auto intro: unique_id_row)
    moreover from inv row have "closed_at_iff_closed ticket" by (rule invariant_row)
    ultimately show "closed_at_iff_closed (?assign t)"
      using edge by (auto simp add: closed_at_iff_closed_def)
  qed
  show ?thesis
    unfolding status_update_cases [OF Some]
    using inv stamped by (simp del: insert_iff)
qed

lemma status_update_unique:
  assumes pk: "unique_ticket_ids d"
  shows "unique_ticket_ids
           (snd (update_ticket_status_by_assignee d now_closed now_updated ticket_id
                   project_id update current_user))"
proof (cases "query_ticket d ticket_id project_id")
  case None
  with pk show ?thesis by (simp add: update_ticket_status_by_assignee_def)
next
  case (Some ticket)
  show ?thesis
    unfolding status_update_cases [OF Some]
    using pk by (simp add: unique_update_row del: insert_iff)
qed

lemma status_update_stamp:
  assumes found: "query_ticket d ticket_id project_id = Some ticket"
  shows "map_option Ticket_closed_at
           (query_ticket
              (snd (update_ticket_status_by_assignee d now_closed now_updated ticket_id
                      project_id update current_user)) ticket_id project_id)
         = Some (if Ticket_assigned_to ticket = Some (User_id current_user)
                    \<and> Ticket_status ticket = Status_in_progress
                    \<and> TicketStatusUpdate_status update = Status_closed
                 then Some now_closed else Ticket_closed_at ticket)"
proof -
  let ?new = "TicketStatusUpdate_status update"
  let ?assign = "\<lambda>t. t\<lparr>Ticket_status := ?new,
                        Ticket_closed_at :=
                          (if ?new = Status_closed then Some now_closed else Ticket_closed_at t),
                        Ticket_updated_at := Some now_updated\<rparr>"
  have read_back: "query_ticket (update_row d (Ticket_id ticket) ?assign) ticket_id project_id
                = Some (?assign ticket)"
    by (rule query_after_update [OF found]) simp
  show ?thesis
    unfolding status_update_cases [OF found]
    using found read_back by (auto simp del: insert_iff)
qed


lemma keeps_closing_time:
  assumes "\<And>t. Ticket_status (assign t) = Ticket_status t
                \<and> Ticket_closed_at (assign t) = Ticket_closed_at t"
    and "closed_at_invariant d"
  shows "closed_at_invariant (update_row d pk assign)"
proof (rule invariant_update_row [OF assms(2)])
  fix t assume "t \<in> set (tickets d)"
  with assms(2) have "closed_at_iff_closed t" by (rule invariant_row)
  with assms(1) show "closed_at_iff_closed (assign t)"
    by (simp add: closed_at_iff_closed_def)
qed

lemma feedback_invariant:
  assumes inv: "closed_at_invariant d" and pk: "unique_ticket_ids d"
  shows "closed_at_invariant
           (snd (leave_feedback_by_creator d now ticket_id project_id update current_user))
       \<and> unique_ticket_ids
           (snd (leave_feedback_by_creator d now ticket_id project_id update current_user))"
  using inv pk
  by (simp add: leave_feedback_by_creator_def Let_def keeps_closing_time unique_update_row
        split: option.splits)

lemma reassign_invariant:
  assumes inv: "closed_at_invariant d" and pk: "unique_ticket_ids d"
  shows "closed_at_invariant (snd (update_ticket_assignee d ticket_id update project_id))
       \<and> unique_ticket_ids (snd (update_ticket_assignee d ticket_id update project_id))"
  using inv pk
  by (simp add: update_ticket_assignee_def Let_def keeps_closing_time unique_update_row
        split: option.splits)

lemma delete_invariant:
  assumes inv: "closed_at_invariant d" and pk: "unique_ticket_ids d"
  shows "closed_at_invariant (snd (delete_ticket d ticket_id project_id current_user))
       \<and> unique_ticket_ids (snd (delete_ticket d ticket_id project_id current_user))"
  using inv pk
  by (auto simp add: delete_ticket_def delete_row_def Let_def closed_at_invariant_def
        unique_ticket_ids_def list_all_iff distinct_map_filter split: option.splits)

lemma fold_max_bounds:
  "(a::int) \<le> fold max xs a \<and> (\<forall>x \<in> set xs. x \<le> fold max xs a)"
proof (induction xs arbitrary: a)
  case Nil
  show ?case by simp
next
  case (Cons y ys)
  from Cons [of "max y a"] show ?case by auto
qed

lemma next_ticket_id_fresh: "next_ticket_id d \<notin> set (map Ticket_id (tickets d))"
proof
  assume "next_ticket_id d \<in> set (map Ticket_id (tickets d))"
  with fold_max_bounds [of 0 "map Ticket_id (tickets d)"]
  have "next_ticket_id d \<le> fold max (map Ticket_id (tickets d)) 0" by blast
  then show False by (simp add: next_ticket_id_def)
qed

lemma new_ticket_open:
  "closed_at_iff_closed
     (new_ticket d now ticket_in user_id assigned_user_id assigned_worker_team_id team
        project_id)"
  by (simp add: closed_at_iff_closed_def new_ticket_def)

lemma new_ticket_id:
  "Ticket_id (new_ticket d now ticket_in user_id assigned_user_id assigned_worker_team_id team
                project_id) = next_ticket_id d"
  by (simp add: new_ticket_def)

lemma create_cases:
  "snd (create_ticket ilike d now ticket_in user_id project_id team_id) = d
   \<or> (\<exists>a w team. snd (create_ticket ilike d now ticket_in user_id project_id team_id)
         = d\<lparr>tickets := tickets d @ [new_ticket d now ticket_in user_id a w team project_id]\<rparr>)"
  by (auto simp add: create_ticket_def Let_def split: sum.splits option.splits)

lemma create_invariant:
  assumes inv: "closed_at_invariant d" and pk: "unique_ticket_ids d"
  shows "closed_at_invariant (snd (create_ticket ilike d now ticket_in user_id project_id team_id))
       \<and> unique_ticket_ids (snd (create_ticket ilike d now ticket_in user_id project_id team_id))"
proof -
  have "closed_at_invariant
          (d\<lparr>tickets := tickets d @ [new_ticket d now ticket_in user_id a w team project_id]\<rparr>)
      \<and> unique_ticket_ids
          (d\<lparr>tickets := tickets d @ [new_ticket d now ticket_in user_id a w team project_id]\<rparr>)"
    for a w team
    using inv pk next_ticket_id_fresh [of d]
    by (simp add: closed_at_invariant_def unique_ticket_ids_def new_ticket_open new_ticket_id)
  with inv pk create_cases [of ilike d now ticket_in user_id project_id team_id]
  show ?thesis by auto
qed

text \<open>
  Claim C4. A ticket has \<open>closed_at\<close> set exactly when its status is closed. The row
  that \<open>create_ticket\<close> adds satisfies this, and when it holds of every ticket of a
  store whose ticket identifiers are distinct, it holds again (and the identifiers are
  distinct again) after \<open>create_ticket\<close>, \<open>update_ticket_status_by_assignee\<close>,
  \<open>leave_feedback_by_creator\<close>, \<open>update_ticket_assignee\<close> and \<open>delete_ticket\<close>.
  The status update stamps \<open>closed_at\<close> exactly when it moves the ticket into closed,
  that is when the assignee takes an in_progress ticket to closed; in every other case
  the ticket read back has the closing time it had.
\<close>

theorem closing_time_invariant:
  assumes inv: "closed_at_invariant d" and pk: "unique_ticket_ids d"
  shows "closed_at_iff_closed
           (new_ticket d now ticket_in user_id assigned_user_id assigned_worker_team_id team
              project_id)
       \<and> closed_at_invariant
           (snd (create_ticket ilike d now ticket_in user_id project_id team_id))
       \<and> unique_ticket_ids
           (snd (create_ticket ilike d now ticket_in user_id project_id team_id))
       \<and> closed_at_invariant
           (snd (update_ticket_status_by_assignee d now_closed now_updated ticket_id
                   project_id status_update current_user))
       \<and> unique_ticket_ids
           (snd (update_ticket_status_by_assignee d now_closed now_updated ticket_id
                   project_id status_update current_user))
       \<and> closed_at_invariant
           (snd (leave_feedback_by_creator d now ticket_id project_id feedback_update
                   current_user))
       \<and> unique_ticket_ids
           (snd (leave_feedback_by_creator d now ticket_id project_id feedback_update
                   current_user))
       \<and> closed_at_invariant
           (snd (update_ticket_assignee d ticket_id assignee_update project_id))
       \<and> unique_ticket_ids
           (snd (update_ticket_assignee d ticket_id assignee_update project_id))
       \<and> closed_at_invariant (snd (delete_ticket d ticket_id project_id current_user))
       \<and> unique_ticket_ids (snd (delete_ticket d ticket_id project_id current_user))
       \<and> (query_ticket d ticket_id project_id = Some ticket
          \<longrightarrow> map_option Ticket_closed_at
                (query_ticket
                   (snd (update_ticket_status_by_assignee d now_closed now_updated ticket_id
                           project_id status_update current_user)) ticket_id project_id)
              = Some (if Ticket_assigned_to ticket = Some (User_id current_user)
                         \<and> Ticket_status ticket = Status_in_progress
                         \<and> TicketStatusUpdate_status status_update = Status_closed
                      then Some now_closed else Ticket_closed_at ticket))"
  using new_ticket_open [of d now ticket_in user_id assigned_user_id assigned_worker_team_id
          team project_id]
    create_invariant [OF inv pk, of ilike now ticket_in user_id project_id team_id]
    status_update_invariant [OF inv pk, of now_closed now_updated ticket_id project_id
      status_update current_user]
    status_update_unique [OF pk, of now_closed now_updated ticket_id project_id
      status_update current_user]
    feedback_invariant [OF inv pk, of now ticket_id project_id feedback_update current_user]
    reassign_invariant [OF inv pk, of ticket_id assignee_update project_id]
    delete_invariant [OF inv pk, of ticket_id project_id current_user]
    status_update_stamp [of d ticket_id project_id ticket now_closed now_updated
      status_update current_user]
  by blast

theorem closing_time_invariant_witness:
  "closed_at_invariant started_db
   \<and> unique_ticket_ids started_db
   \<and> query_ticket started_db 1 1 = Some (open_ticket\<lparr>Ticket_status := Status_in_progress\<rparr>)
   \<and> closed_at_invariant
        (snd (update_ticket_status_by_assignee started_db 500 501 1 1
                \<lparr>TicketStatusUpdate_status = Status_closed\<rparr> bob))
   \<and> map_option Ticket_closed_at
        (query_ticket
           (snd (update_ticket_status_by_assignee started_db 500 501 1 1
                   \<lparr>TicketStatusUpdate_status = Status_closed\<rparr> bob)) 1 1)
       = Some (Some 500)
   \<and> closed_at_invariant
        (snd (create_ticket no_match started_db 600 worker_request 1 1 None))"
proof -
  have inv: "closed_at_invariant started_db"
    by (simp add: closed_at_invariant_def closed_at_iff_closed_def started_db_def
          open_ticket_def closed_ticket_def)
  have pk: "unique_ticket_ids started_db"
    by (simp add: unique_ticket_ids_def started_db_def open_ticket_def closed_ticket_def)
  have found: "query_ticket started_db 1 1
                 = Some (open_ticket\<lparr>Ticket_status := Status_in_progress\<rparr>)"
    by (simp add: query_ticket_def started_db_def open_ticket_def closed_ticket_def)
  have who: "Ticket_assigned_to (open_ticket\<lparr>Ticket_status := Status_in_progress\<rparr>)
               = Some (User_id bob)"
    by (simp add: open_ticket_def bob_def)
  from closing_time_invariant [OF inv pk, where ticket_id = 1 and project_id = 1
         and now_closed = 500 and now_updated = 501
         and status_update = "\<lparr>TicketStatusUpdate_status = Status_closed\<rparr>"
         and current_user = bob
         and ticket = "open_ticket\<lparr>Ticket_status := Status_in_progress\<rparr>"
         and ilike = no_match and now = 600 and ticket_in = worker_request and user_id = 1
         and team_id = None]
       inv pk found who
  show ?thesis by simp
qed


section \<open>Properties of ticket creation\<close>

lemma get_Team_id: "get_Team d tid = Some team \<Longrightarrow> Team_id team = tid"
  by (auto simp add: get_Team_def dest: find_SomeD)

lemma get_User_id: "get_User d user_id = Some user \<Longrightarrow> User_id user = user_id"
  by (auto simp add: get_User_def dest: find_SomeD)

lemma create_without_team:
  assumes "resolve_team_id d ticket_in user_id team_id = Inl e"
  shows "create_ticket ilike d now ticket_in user_id project_id team_id = (Inl e, d)"
  using assms by (simp add: create_ticket_def)

lemma create_unknown_team:
  assumes "resolve_team_id d ticket_in user_id team_id = Inr t" and "get_Team d t = None"
  shows "create_ticket ilike d now ticket_in user_id project_id team_id = (Inl NotFound, d)"
  using assms by (simp add: create_ticket_def)

lemma create_adds_row:
  assumes "resolve_team_id d ticket_in user_id team_id = Inr t"
    and "snd (create_ticket ilike d now ticket_in user_id project_id team_id) \<noteq> d"
  shows "\<exists>a w team. Team_id team = t
           \<and> snd (create_ticket ilike d now ticket_in user_id project_id team_id)
             = d\<lparr>tickets := tickets d
                   @ [new_ticket d now ticket_in user_id a w team project_id]\<rparr>"
  using assms
  by (auto simp add: create_ticket_def Let_def split: sum.splits option.splits)
     (blast dest: get_Team_id)

lemma resolve_by_membership:
  assumes "team_id = None \<or> team_id = Some 0" and "TicketCreate_team_id ticket_in = None"
    and "get_User d user_id = Some user"
  shows "resolve_team_id d ticket_in user_id team_id =
           (case User_teams d user_id of [] \<Rightarrow> Inl BadRequest | t # _ \<Rightarrow> Inr (Team_id t))"
  using assms get_User_id [OF assms(3)]
  by (auto simp add: resolve_team_id_def py_or_def)

text \<open>
  Claim C7 as stated fails: with no override, no team in the request and an actor
  without team memberships, \<open>create_ticket\<close> fails with \<open>BadRequest\<close>, not with
  \<open>NotFound\<close>.
\<close>

theorem team_counterexample:
  "TicketCreate_team_id worker_request = None
   \<and> get_User demo_db 3 = Some cy
   \<and> User_teams demo_db 3 = []
   \<and> create_ticket no_match demo_db 600 worker_request 3 1 None = (Inl BadRequest, demo_db)
   \<and> fst (create_ticket no_match demo_db 600 worker_request 3 1 None) \<noteq> Inl NotFound"
  by (simp add: create_ticket_def op_defs demo_defs)

text \<open>
  Claim C7, amended. The effective team of \<open>create_ticket\<close> is the override when one
  is given (an override of 0 counts as not given), else the team of the request, else
  the first team of the actor. When there is no override, no team in the request and
  the actor has no team membership, the call fails with \<open>BadRequest\<close>. A resolved team
  that does not exist gives \<open>NotFound\<close>, and a ticket that is added carries the resolved
  team.
\<close>

theorem effective_team:
  "(team_id = Some t \<and> t \<noteq> 0 \<longrightarrow> resolve_team_id d ticket_in user_id team_id = Inr t)
   \<and> ((team_id = None \<or> team_id = Some 0) \<and> TicketCreate_team_id ticket_in = Some t
      \<longrightarrow> resolve_team_id d ticket_in user_id team_id = Inr t)
   \<and> ((team_id = None \<or> team_id = Some 0) \<and> TicketCreate_team_id ticket_in = None
        \<and> get_User d user_id = Some user \<and> User_teams d user_id = first # others
      \<longrightarrow> resolve_team_id d ticket_in user_id team_id = Inr (Team_id first))
   \<and> ((team_id = None \<or> team_id = Some 0) \<and> TicketCreate_team_id ticket_in = None
        \<and> get_User d user_id = Some user \<and> User_teams d user_id = []
      \<longrightarrow> create_ticket ilike d now ticket_in user_id project_id team_id
            = (Inl BadRequest, d))
   \<and> (resolve_team_id d ticket_in user_id team_id = Inr t \<and> get_Team d t = None
      \<longrightarrow> create_ticket ilike d now ticket_in user_id project_id team_id
            = (Inl NotFound, d))
   \<and> (resolve_team_id d ticket_in user_id team_id = Inr t
        \<and> snd (create_ticket ilike d now ticket_in user_id project_id team_id) \<noteq> d
      \<longrightarrow> tickets (snd (create_ticket ilike d now ticket_in user_id project_id team_id))
            = tickets d
              @ [last (tickets (snd (create_ticket ilike d now ticket_in user_id project_id
                                       team_id)))]
          \<and> Ticket_team_id
              (last (tickets (snd (create_ticket ilike d now ticket_in user_id project_id
                                     team_id)))) = t)"
proof -
  have override: "team_id = Some t \<and> t \<noteq> 0
                    \<longrightarrow> resolve_team_id d ticket_in user_id team_id = Inr t"
    by (simp add: resolve_team_id_def py_or_def)
  have supplied: "(team_id = None \<or> team_id = Some 0) \<and> TicketCreate_team_id ticket_in = Some t
                    \<longrightarrow> resolve_team_id d ticket_in user_id team_id = Inr t"
    by (auto simp add: resolve_team_id_def py_or_def)
  have membership: "(team_id = None \<or> team_id = Some 0) \<and> TicketCreate_team_id ticket_in = None
        \<and> get_User d user_id = Some user \<and> User_teams d user_id = first # others
      \<longrightarrow> resolve_team_id d ticket_in user_id team_id = Inr (Team_id first)"
    using resolve_by_membership [of team_id ticket_in d user_id user] by auto
  have "(team_id = None \<or> team_id = Some 0) \<and> TicketCreate_team_id ticket_in = None
        \<and> get_User d user_id = Some user \<and> User_teams d user_id = []
      \<longrightarrow> resolve_team_id d ticket_in user_id team_id = Inl BadRequest"
    using resolve_by_membership [of team_id ticket_in d user_id user] by auto
  then have none: "(team_id = None \<or> team_id = Some 0) \<and> TicketCreate_team_id ticket_in = None
        \<and> get_User d user_id = Some user \<and> User_teams d user_id = []
      \<longrightarrow> create_ticket ilike d now ticket_in user_id project_id team_id
            = (Inl BadRequest, d)"
    using create_without_team [of d ticket_in user_id team_id BadRequest ilike now project_id]
    by blast
  have unknown: "resolve_team_id d ticket_in user_id team_id = Inr t \<and> get_Team d t = None
      \<longrightarrow> create_ticket ilike d now ticket_in user_id project_id team_id
            = (Inl NotFound, d)"
    using create_unknown_team [of d ticket_in user_id team_id t ilike now project_id]
    by blast
  have row: "resolve_team_id d ticket_in user_id team_id = Inr t
        \<and> snd (create_ticket ilike d now ticket_in user_id project_id team_id) \<noteq> d
      \<longrightarrow> tickets (snd (create_ticket ilike d now ticket_in user_id project_id team_id))
            = tickets d
              @ [last (tickets (snd (create_ticket ilike d now ticket_in user_id project_id
                                       team_id)))]
          \<and> Ticket_team_id
              (last (tickets (snd (create_ticket ilike d now ticket_in user_id project_id
                                     team_id)))) = t"
  proof
    assume a: "resolve_team_id d ticket_in user_id team_id = Inr t
        \<and> snd (create_ticket ilike d now ticket_in user_id project_id team_id) \<noteq> d"
    from create_adds_row [of d ticket_in user_id team_id t ilike now project_id] a
    obtain a w team where "Team_id team = t"
      and "snd (create_ticket ilike d now ticket_in user_id project_id team_id)
             = d\<lparr>tickets := tickets d
                   @ [new_ticket d now ticket_in user_id a w team project_id]\<rparr>"
      by blast
    then show "tickets (snd (create_ticket ilike d now ticket_in user_id project_id team_id))
            = tickets d
              @ [last (tickets (snd (create_ticket ilike d now ticket_in user_id project_id
                                       team_id)))]
          \<and> Ticket_team_id
              (last (tickets (snd (create_ticket ilike d now ticket_in user_id project_id
                                     team_id)))) = t"
      by (simp add: new_ticket_def)
  qed
  from override supplied membership none unknown row show ?thesis by blast
qed


theorem effective_team_witness:
  "resolve_team_id demo_db worker_request 1 (Some 7) = Inr 7
   \<and> snd (create_ticket no_match demo_db 600 worker_request 1 1 (Some 7)) \<noteq> demo_db
   \<and> Ticket_team_id
        (last (tickets (snd (create_ticket no_match demo_db 600 worker_request 1 1 (Some 7)))))
       = 7
   \<and> TicketCreate_team_id (worker_request\<lparr>TicketCreate_team_id := Some 7\<rparr>) = Some 7
   \<and> resolve_team_id demo_db (worker_request\<lparr>TicketCreate_team_id := Some 7\<rparr>) 1 None
       = Inr 7
   \<and> TicketCreate_team_id worker_request = None
   \<and> get_User demo_db 1 = Some ann
   \<and> User_teams demo_db 1 = [\<lparr>Team_id = 1, Team_name = ''core''\<rparr>]
   \<and> resolve_team_id demo_db worker_request 1 None = Inr 1
   \<and> get_User demo_db 3 = Some cy
   \<and> User_teams demo_db 3 = []
   \<and> create_ticket no_match demo_db 600 worker_request 3 1 None = (Inl BadRequest, demo_db)
   \<and> resolve_team_id demo_db worker_request 1 (Some 99) = Inr 99
   \<and> get_Team demo_db 99 = None
   \<and> create_ticket no_match demo_db 600 worker_request 1 1 (Some 99)
       = (Inl NotFound, demo_db)"
proof -
  have given: "TicketCreate_team_id (worker_request\<lparr>TicketCreate_team_id := Some 7\<rparr>) = Some 7"
    "TicketCreate_team_id worker_request = None"
    by (simp_all add: worker_request_def)
  have rows: "get_User demo_db 1 = Some ann" "get_User demo_db 3 = Some cy"
    "User_teams demo_db 1 = [\<lparr>Team_id = 1, Team_name = ''core''\<rparr>]"
    "User_teams demo_db 3 = []" "get_Team demo_db 99 = None"
    by (simp_all add: get_User_def get_Team_def User_teams_def demo_defs)
  have changed: "snd (create_ticket no_match demo_db 600 worker_request 1 1 (Some 7))
                   \<noteq> demo_db"
    by (simp add: create_ticket_def op_defs demo_defs)
  from effective_team [where team_id = "Some 7" and t = 7 and d = demo_db
         and ticket_in = worker_request and user_id = 1 and ilike = no_match and now = 600
         and project_id = 1]
       changed
  have override: "resolve_team_id demo_db worker_request 1 (Some 7) = Inr 7"
    "Ticket_team_id
       (last (tickets (snd (create_ticket no_match demo_db 600 worker_request 1 1 (Some 7)))))
     = 7"
    by simp_all
  from effective_team [where team_id = None and t = 7 and d = demo_db
         and ticket_in = "worker_request\<lparr>TicketCreate_team_id := Some 7\<rparr>" and user_id = 1]
       given
  have supplied: "resolve_team_id demo_db (worker_request\<lparr>TicketCreate_team_id := Some 7\<rparr>)
                    1 None = Inr 7"
    by simp
  from effective_team [where team_id = None and d = demo_db and ticket_in = worker_request
         and user_id = 1 and user = ann and first = "\<lparr>Team_id = 1, Team_name = ''core''\<rparr>"
         and others = "[]"]
       given rows
  have membership: "resolve_team_id demo_db worker_request 1 None = Inr 1"
    by simp
  from effective_team [where team_id = None and d = demo_db and ticket_in = worker_request
         and user_id = 3 and user = cy and ilike = no_match and now = 600 and project_id = 1]
       given rows
  have none: "create_ticket no_match demo_db 600 worker_request 3 1 None
                = (Inl BadRequest, demo_db)"
    by simp
  from effective_team [where team_id = "Some 99" and t = 99 and d = demo_db
         and ticket_in = worker_request and user_id = 1 and ilike = no_match and now = 600
         and project_id = 1]
       rows
  have unknown: "resolve_team_id demo_db worker_request 1 (Some 99) = Inr 99"
    "create_ticket no_match demo_db 600 worker_request 1 1 (Some 99)
       = (Inl NotFound, demo_db)"
    by simp_all
  from given rows changed override supplied membership none unknown
  show ?thesis by simp
qed

lemma create_after_checks:
  assumes "resolve_team_id d ticket_in user_id team_id = Inr tid"
    and "get_Team d tid = Some team"
    and "get_Project d project_id = Some project"
    and "find (\<lambda>pu. ProjectUser_user_id pu = user_id
                      \<and> ProjectUser_project_id pu = project_id) (project_users d)
           = Some author_link"
    and "resolve_assignee ilike d (TicketCreate_assigned_to_name ticket_in) project_id
           = Inr assigned_user_id"
  shows "create_ticket ilike d now ticket_in user_id project_id team_id =
           (case resolve_worker_team project ticket_in of
              Inl e \<Rightarrow> (Inl e, d)
            | Inr w \<Rightarrow>
                (load_ticket
                   (d\<lparr>tickets := tickets d
                        @ [new_ticket d now ticket_in user_id assigned_user_id w team
                             project_id]\<rparr>)
                   (next_ticket_id d),
                 d\<lparr>tickets := tickets d
                      @ [new_ticket d now ticket_in user_id assigned_user_id w team
                           project_id]\<rparr>))"
  using assms by (simp add: create_ticket_def Let_def new_ticket_def split: sum.splits)

text \<open>
  Claim C6. Once the team, the project, the membership of the author and the assignee
  are resolved, \<open>create_ticket\<close> fails with \<open>BadRequest\<close> when the request names a
  worker team other than the one of the project, and adds a ticket with that worker team
  when they agree. When the request names none and its type is worker, the added ticket
  gets the worker team of the project, and the call fails with \<open>BadRequest\<close> when the
  project has none (a worker team of 0 counts as none).
\<close>

theorem worker_team_assignment:
  assumes team_id: "resolve_team_id d ticket_in user_id team_id = Inr tid"
    and team: "get_Team d tid = Some team"
    and project: "get_Project d project_id = Some project"
    and author: "find (\<lambda>pu. ProjectUser_user_id pu = user_id
                      \<and> ProjectUser_project_id pu = project_id) (project_users d)
                   = Some author_link"
    and assignee: "resolve_assignee ilike d (TicketCreate_assigned_to_name ticket_in)
                     project_id = Inr assigned_user_id"
  shows "(TicketCreate_worker_team_id ticket_in = Some w
            \<and> Project_worker_team_id project \<noteq> Some w
          \<longrightarrow> create_ticket ilike d now ticket_in user_id project_id team_id
                = (Inl BadRequest, d))
       \<and> (TicketCreate_worker_team_id ticket_in = Some w
            \<and> Project_worker_team_id project = Some w
          \<longrightarrow> tickets (snd (create_ticket ilike d now ticket_in user_id project_id team_id))
                = tickets d
                  @ [last (tickets (snd (create_ticket ilike d now ticket_in user_id
                                           project_id team_id)))]
              \<and> Ticket_worker_team_id
                  (last (tickets (snd (create_ticket ilike d now ticket_in user_id
                                         project_id team_id)))) = Some w)
       \<and> (TicketCreate_worker_team_id ticket_in = None
            \<and> TicketCreate_type ticket_in = TicketType_worker
            \<and> Project_worker_team_id project = Some p \<and> p \<noteq> 0
          \<longrightarrow> tickets (snd (create_ticket ilike d now ticket_in user_id project_id team_id))
                = tickets d
                  @ [last (tickets (snd (create_ticket ilike d now ticket_in user_id
                                           project_id team_id)))]
              \<and> Ticket_worker_team_id
                  (last (tickets (snd (create_ticket ilike d now ticket_in user_id
                                         project_id team_id)))) = Some p)
       \<and> (TicketCreate_worker_team_id ticket_in = None
            \<and> TicketCreate_type ticket_in = TicketType_worker
            \<and> (Project_worker_team_id project = None
                 \<or> Project_worker_team_id project = Some 0)
          \<longrightarrow> create_ticket ilike d now ticket_in user_id project_id team_id
                = (Inl BadRequest, d))"
proof -
  note after = create_after_checks [OF team_id team project author assignee, of now]
  have mismatch: "TicketCreate_worker_team_id ticket_in = Some w
            \<and> Project_worker_team_id project \<noteq> Some w
          \<longrightarrow> create_ticket ilike d now ticket_in user_id project_id team_id
                = (Inl BadRequest, d)"
    using after by (auto simp add: resolve_worker_team_def)
  have unconfigured: "TicketCreate_worker_team_id ticket_in = None
            \<and> TicketCreate_type ticket_in = TicketType_worker
            \<and> (Project_worker_team_id project = None
                 \<or> Project_worker_team_id project = Some 0)
          \<longrightarrow> create_ticket ilike d now ticket_in user_id project_id team_id
                = (Inl BadRequest, d)"
    using after by (auto simp add: resolve_worker_team_def)
  have explicit: "TicketCreate_worker_team_id ticket_in = Some w
            \<and> Project_worker_team_id project = Some w
          \<longrightarrow> snd (create_ticket ilike d now ticket_in user_id project_id team_id)
                = d\<lparr>tickets := tickets d
                     @ [new_ticket d now ticket_in user_id assigned_user_id (Some w) team
                          project_id]\<rparr>"
    using after by (simp add: resolve_worker_team_def)
  have automatic: "TicketCreate_worker_team_id ticket_in = None
            \<and> TicketCreate_type ticket_in = TicketType_worker
            \<and> Project_worker_team_id project = Some p \<and> p \<noteq> 0
          \<longrightarrow> snd (create_ticket ilike d now ticket_in user_id project_id team_id)
                = d\<lparr>tickets := tickets d
                     @ [new_ticket d now ticket_in user_id assigned_user_id (Some p) team
                          project_id]\<rparr>"
    using after by (simp add: resolve_worker_team_def)
  have field: "\<And>x. Ticket_worker_team_id
                 (new_ticket d now ticket_in user_id assigned_user_id x team project_id) = x"
    by (simp add: new_ticket_def)
  from mismatch unconfigured explicit automatic field show ?thesis
    by (auto simp del: insert_iff)
qed


theorem worker_team_assignment_witness:
  "get_Project demo_db 1 = Some \<lparr>Project_id = 1, Project_worker_team_id = Some 7\<rparr>
   \<and> TicketCreate_worker_team_id worker_request = None
   \<and> TicketCreate_type worker_request = TicketType_worker
   \<and> Ticket_worker_team_id
        (last (tickets (snd (create_ticket no_match demo_db 600 worker_request 1 1 None))))
       = Some 7
   \<and> get_Project demo_db 2 = Some \<lparr>Project_id = 2, Project_worker_team_id = None\<rparr>
   \<and> create_ticket no_match demo_db 600 worker_request 1 2 None = (Inl BadRequest, demo_db)
   \<and> create_ticket no_match demo_db 600
         (worker_request\<lparr>TicketCreate_worker_team_id := Some 5\<rparr>) 1 1 None
       = (Inl BadRequest, demo_db)
   \<and> Ticket_worker_team_id
        (last (tickets (snd (create_ticket no_match demo_db 600
                               (worker_request\<lparr>TicketCreate_worker_team_id := Some 7\<rparr>)
                               1 1 None))))
       = Some 7"
proof -
  let ?core = "\<lparr>Team_id = 1, Team_name = ''core''\<rparr>"
  let ?one = "\<lparr>Project_id = 1, Project_worker_team_id = Some 7\<rparr>"
  let ?two = "\<lparr>Project_id = 2, Project_worker_team_id = None\<rparr>"
  have team_id: "\<And>w. resolve_team_id demo_db
                        (worker_request\<lparr>TicketCreate_worker_team_id := w\<rparr>) 1 None = Inr 1"
    "resolve_team_id demo_db worker_request 1 None = Inr 1"
    by (simp_all add: op_defs demo_defs)
  have team: "get_Team demo_db 1 = Some ?core"
    by (simp add: get_Team_def demo_db_def)
  have project: "get_Project demo_db 1 = Some ?one" "get_Project demo_db 2 = Some ?two"
    by (simp_all add: get_Project_def demo_db_def)
  have author:
    "find (\<lambda>pu. ProjectUser_user_id pu = 1 \<and> ProjectUser_project_id pu = 1)
       (project_users demo_db)
     = Some \<lparr>ProjectUser_user_id = 1, ProjectUser_project_id = 1,
              ProjectUser_role = ProjectRole_admin\<rparr>"
    "find (\<lambda>pu. ProjectUser_user_id pu = 1 \<and> ProjectUser_project_id pu = 2)
       (project_users demo_db)
     = Some \<lparr>ProjectUser_user_id = 1, ProjectUser_project_id = 2,
              ProjectUser_role = ProjectRole_admin\<rparr>"
    by (simp_all add: demo_db_def)
  have assignee: "\<And>w p. resolve_assignee no_match demo_db
                    (TicketCreate_assigned_to_name
                       (worker_request\<lparr>TicketCreate_worker_team_id := w\<rparr>)) p = Inr None"
    "\<And>p. resolve_assignee no_match demo_db
                    (TicketCreate_assigned_to_name worker_request) p = Inr None"
    by (simp_all add: resolve_assignee_def worker_request_def)
  have request: "TicketCreate_worker_team_id worker_request = None"
    "TicketCreate_type worker_request = TicketType_worker"
    "\<And>w. TicketCreate_worker_team_id (worker_request\<lparr>TicketCreate_worker_team_id := w\<rparr>)
            = w"
    by (simp_all add: worker_request_def)
  from worker_team_assignment [OF team_id(2) team project(1) author(1) assignee(2),
         where now = 600 and p = 7]
       request
  have automatic: "Ticket_worker_team_id
        (last (tickets (snd (create_ticket no_match demo_db 600 worker_request 1 1 None))))
       = Some 7"
    by simp
  from worker_team_assignment [OF team_id(2) team project(2) author(2) assignee(2),
         where now = 600]
       request
  have unconfigured: "create_ticket no_match demo_db 600 worker_request 1 2 None
                        = (Inl BadRequest, demo_db)"
    by simp
  from worker_team_assignment [OF team_id(1) [of "Some 5"] team project(1) author(1)
         assignee(1) [of "Some 5" 1], where now = 600 and w = 5]
       request
  have mismatch: "create_ticket no_match demo_db 600
         (worker_request\<lparr>TicketCreate_worker_team_id := Some 5\<rparr>) 1 1 None
       = (Inl BadRequest, demo_db)"
    by simp
  from worker_team_assignment [OF team_id(1) [of "Some 7"] team project(1) author(1)
         assignee(1) [of "Some 7" 1], where now = 600 and w = 7]
       request
  have explicit: "Ticket_worker_team_id
        (last (tickets (snd (create_ticket no_match demo_db 600
                               (worker_request\<lparr>TicketCreate_worker_team_id := Some 7\<rparr>)
                               1 1 None))))
       = Some 7"
    by simp
  from project request automatic unconfigured mismatch explicit show ?thesis by simp
qed


end
